theory Spec2Isabelle
  imports Complex_Main "HOL-Library.Word"
begin

section \<open>The speech-in, speech-out demo\<close>

text \<open>
  The theory embeds \<^verbatim>\<open>src/transformers/llm/engine/demo/audio_demo.cpp\<close>.
  Strings are byte strings (\<open>std::string\<close>): the Chinese literals of the source are
  written as their UTF-8 bytes, as they stand in the source file.
  Waveform samples are never inspected by the demo, so their type is a type variable.
\<close>

subsection \<open>Values and observable events\<close>

text \<open>
  \<open>_Const(waveform.data(), {(int)waveform.size()}, NCHW, halide_type_of<float>())\<close>:
  a one-dimensional constant tensor holding the samples; its only dimension is the size
  of the vector cast to a 32-bit \<open>int\<close>.
\<close>

record 's VARP =
  data :: "'s list"
  dim :: "32 word"

definition Const :: "'s list \<Rightarrow> 's VARP" where
  "Const waveform = \<lparr>data = waveform, dim = word_of_nat (length waveform)\<rparr>"

text \<open>What is written to \<open>std::cout\<close> by one \<open><<\<close>: a string or a number.\<close>

datatype out = Str string | IntV int | RealV real

text \<open>The two token vocabularies are disjoint: two types.\<close>

datatype text_token = Text int

datatype speech_token = Speech int

text \<open>A member of a JSON object passed to \<open>set_config\<close>: the value of a key.\<close>

datatype jvalue = JString string | JBool bool | JInt int

text \<open>
  What \<open>saveWaveToFile\<close>, and so the waveform callback, does to the outside world:
  \<open>MNN_PRINT\<close> and \<open>MNN_ERROR\<close> with the formatted message, and the call
  \<open>AUDIO::save(path, var, sampleRate)\<close>.
\<close>

datatype 's effect =
    MNN_PRINT string
  | MNN_ERROR string
  | AUDIO_save string "'s VARP" int

text \<open>
  What the program does to the outside world and to the \<open>Llm\<close> object, in the order
  it does it. The first block is what the demo itself does: output, an effect as above,
  the end of the \<open>AUTOTIME\<close> scope (it prints the elapsed time), and the calls into
  the engine. The second block is what the engine does during \<open>response\<close> and
  \<open>generateWavform\<close>: a text token committed to the generation trace at a position,
  a speech token emitted at a position, and a waveform chunk delivered to the callback
  (samples, terminal flag, and what the callback answered).
\<close>

datatype 's event =
    Cout out
  | Effect "'s effect"
  | AUTOTIME
  | NewExecutor
  | CreateLLM string
  | SetConfig "(string \<times> jvalue) list"
  | Load
  | SetWavformCallback
  | GetContext
  | Response string
  | GenerateWavform
  | TextCommitted nat text_token
  | SpeechEmitted nat speech_token
  | Chunk "'s list" bool bool

fun is_AUDIO_save :: "'s effect \<Rightarrow> bool" where
  "is_AUDIO_save (AUDIO_save p v r) = True"
| "is_AUDIO_save e = False"

fun is_MNN_ERROR :: "'s effect \<Rightarrow> bool" where
  "is_MNN_ERROR (MNN_ERROR m) = True"
| "is_MNN_ERROR e = False"

fun is_Cout :: "'s event \<Rightarrow> bool" where
  "is_Cout (Cout x) = True"
| "is_Cout e = False"

subsection \<open>saveWaveToFile\<close>

text \<open>
  \<open>AUDIO::save\<close> is an external collaborator; whether it succeeds is a parameter
  \<open>save_ok\<close> of the model. The function returns the effects it performs.
\<close>

definition saveWaveToFile ::
  "(string \<Rightarrow> 's VARP \<Rightarrow> int \<Rightarrow> bool) \<Rightarrow> 's list \<Rightarrow> string \<Rightarrow> int \<Rightarrow> 's effect list" where
  "saveWaveToFile save_ok waveform outPath sampleRate =
     (if waveform = [] then [MNN_PRINT ''No waveform data, skip save.\<newline>'']
      else
        let var = Const waveform;
            ok = save_ok outPath var sampleRate
        in AUDIO_save outPath var sampleRate #
           (if \<not> ok then [MNN_ERROR (''Save wav to '' @ outPath @ '' failed.\<newline>'')]
            else [MNN_PRINT (''Waveform saved to: '' @ outPath @ ''\<newline>'')]))"

text \<open>The default argument \<open>int sampleRate = 24000\<close>.\<close>

definition default_sampleRate :: int where
  "default_sampleRate = 24000"

subsection \<open>buildAudioPrompt\<close>

text \<open>
  The default question of the source, line 59: the UTF-8 bytes of the Chinese sentence
  "please summarise the content of this audio in Chinese".
\<close>

definition default_question :: string where
  "default_question =
     [CHR 0xE8, CHR 0xAF, CHR 0xB7, CHR 0xE4, CHR 0xBD, CHR 0xA0, CHR 0xE7, CHR 0x94, CHR 0xA8,
      CHR 0xE4, CHR 0xB8, CHR 0xAD, CHR 0xE6, CHR 0x96, CHR 0x87, CHR 0xE6, CHR 0x80, CHR 0xBB,
      CHR 0xE7, CHR 0xBB, CHR 0x93, CHR 0xE4, CHR 0xB8, CHR 0x80, CHR 0xE4, CHR 0xB8, CHR 0x8B,
      CHR 0xE8, CHR 0xBF, CHR 0x99, CHR 0xE6, CHR 0xAE, CHR 0xB5, CHR 0xE9, CHR 0x9F, CHR 0xB3,
      CHR 0xE9, CHR 0xA2, CHR 0x91, CHR 0xE7, CHR 0x9A, CHR 0x84, CHR 0xE5, CHR 0x86, CHR 0x85,
      CHR 0xE5, CHR 0xAE, CHR 0xB9, CHR 0xE3, CHR 0x80, CHR 0x82]"

text \<open>
  A \<open>std::ostringstream\<close> is the string written so far; \<open>os << s\<close> appends \<open>s\<close>
  and \<open>os.str()\<close> reads the buffer.
\<close>

type_synonym ostringstream = string

definition put :: "ostringstream \<Rightarrow> string \<Rightarrow> ostringstream" where
  "put os s = os @ s"

definition str :: "ostringstream \<Rightarrow> string" where
  "str os = os"

definition buildAudioPrompt :: "string \<Rightarrow> string \<Rightarrow> string" where
  "buildAudioPrompt audioPath userQuestion =
     (let os = [];
          os = put (put (put os ''<audio>'') audioPath) ''</audio>'';
          os = (if userQuestion \<noteq> [] then put os userQuestion
                else put os default_question)
      in str os)"

text \<open>
  The call of \<open>buildAudioPrompt\<close> as its caller sees it. The function has no
  \<open>throw\<close>, no error return and no check of \<open>audioPath\<close>: every call returns a
  prompt. (\<open>InvalidPromptError\<close> is the specification's name for a failure of prompt
  building.)
\<close>

datatype prompt_error = InvalidPromptError

definition PromptBuilder :: "string \<Rightarrow> string \<Rightarrow> prompt_error + string" where
  "PromptBuilder audio_reference instruction_text =
     Inr (buildAudioPrompt audio_reference instruction_text)"

subsection \<open>The waveform callback\<close>

text \<open>
  The lambda given to \<open>setWavformCallback\<close> (lines 134 to 142). It captures the vector
  \<open>waveform\<close> and the path \<open>outWave\<close> by reference; the model passes the vector in
  and returns it. \<open>chunk\<close> is the buffer \<open>ptr[0..size)\<close>. The result is the value
  returned to the engine, the vector afterwards, and the effects of the call.
\<close>

definition wavformCallback ::
  "(string \<Rightarrow> 's VARP \<Rightarrow> int \<Rightarrow> bool) \<Rightarrow> string \<Rightarrow> 's list \<Rightarrow> 's list \<Rightarrow> bool
     \<Rightarrow> bool \<times> 's list \<times> 's effect list" where
  "wavformCallback save_ok outWave waveform chunk last_chunk =
     (let waveform = waveform @ chunk in
      if last_chunk
      then (True, [], saveWaveToFile save_ok waveform outWave default_sampleRate)
      else (True, waveform, []))"

text \<open>
  The callback over a sequence of deliveries \<open>(chunk, last_chunk)\<close>, in order: the
  effects of each call, and the vector after the last one.
\<close>

fun callbacks ::
  "(string \<Rightarrow> 's VARP \<Rightarrow> int \<Rightarrow> bool) \<Rightarrow> string \<Rightarrow> 's list \<Rightarrow> ('s list \<times> bool) list
     \<Rightarrow> 's effect list list \<times> 's list" where
  "callbacks save_ok outWave waveform [] = ([], waveform)"
| "callbacks save_ok outWave waveform ((chunk, last_chunk) # ds) =
     (case wavformCallback save_ok outWave waveform chunk last_chunk of
        (continue, waveform', effects) \<Rightarrow>
          (case callbacks save_ok outWave waveform' ds of
             (rest, final) \<Rightarrow> (effects # rest, final)))"

subsection \<open>Command line\<close>

text \<open>
  The loop of lines 87 to 90 joining \<open>argv[4], ..., argv[argc - 1]\<close>:
  \<open>for (int i = 4; i < argc; ++i) { if (i > 4) q << " "; q << argv[i]; }\<close>
\<close>

function question_loop :: "string list \<Rightarrow> nat \<Rightarrow> ostringstream \<Rightarrow> ostringstream" where
  "question_loop argv i q =
     (if i < length argv
      then question_loop argv (Suc i) (put (if i > 4 then put q '' '' else q) (argv ! i))
      else q)"
  by pat_completeness auto
termination
  by (relation "measure (\<lambda>(argv, i, q). length argv - i)") auto

declare question_loop.simps [simp del]

definition parse_outWave :: "string list \<Rightarrow> string" where
  "parse_outWave argv = (if length argv \<ge> 4 then argv ! 3 else ''output.wav'')"

definition parse_question :: "string list \<Rightarrow> string" where
  "parse_question argv = (if length argv \<ge> 5 then str (question_loop argv 4 []) else [])"

text \<open>The words of the claim: strings joined with one space between neighbours.\<close>

fun space_joined :: "string list \<Rightarrow> string" where
  "space_joined [] = []"
| "space_joined [s] = s"
| "space_joined (s # t # ts) = s @ '' '' @ space_joined (t # ts)"

text \<open>The usage text, lines 66 to 72, one event for each \<open><<\<close>.\<close>

definition usage_example_heading :: string where
  "usage_example_heading =
     [CHR 0xE7, CHR 0xA4, CHR 0xBA, CHR 0xE4, CHR 0xBE, CHR 0x8B, CHR 0xEF, CHR 0xBC, CHR 0x9A]
     @ ''\<newline>''"

definition usage_example_question :: string where
  "usage_example_question =
     [CHR 0xE8, CHR 0xAF, CHR 0xB7, CHR 0xE6, CHR 0x8A, CHR 0x8A, CHR 0xE5, CHR 0x86, CHR 0x85,
      CHR 0xE5, CHR 0xAE, CHR 0xB9, CHR 0xE7, CHR 0xBF, CHR 0xBB, CHR 0xE8, CHR 0xAF, CHR 0x91,
      CHR 0xE6, CHR 0x88, CHR 0x90, CHR 0xE4, CHR 0xB8, CHR 0xAD, CHR 0xE6, CHR 0x96, CHR 0x87,
      CHR 0xE5, CHR 0xB9, CHR 0xB6, CHR 0xE7, CHR 0xAE, CHR 0x80, CHR 0xE8, CHR 0xA6, CHR 0x81,
      CHR 0xE6, CHR 0xA6, CHR 0x82, CHR 0xE6, CHR 0x8B, CHR 0xAC]"

definition usage :: "string \<Rightarrow> 's event list" where
  "usage argv0 =
     [Cout (Str ''Usage:\<newline>''),
      Cout (Str ''  ''), Cout (Str argv0),
      Cout (Str '' <config.json> <audio.wav> [output.wav] [question]\<newline>\<newline>''),
      Cout (Str usage_example_heading),
      Cout (Str ''  ''), Cout (Str argv0),
      Cout (Str ('' D:/Project/models/qwen2.5/config.json D:/audio/input.wav output.wav ''
                 @ [CHR 0x22] @ usage_example_question @ [CHR 0x22] @ ''\<newline>''))]"

subsection \<open>Statistics\<close>

text \<open>
  The fields of \<open>LlmContext\<close> that the demo reads (the struct is declared in
  \<open>llm/llm.hpp\<close>): two token counts, the duration of the audio input in seconds (a
  \<open>float\<close>, compared with \<open>0.0f\<close>) and the audio processing time in microseconds.
  Floating-point values are modelled as reals: the demo only compares one with zero and
  divides.
\<close>

record LlmContext =
  prompt_len :: int
  gen_seq_len :: int
  audio_input_s :: real
  audio_us :: int

text \<open>
  Division as the program executes it. Dividing by zero is undefined behaviour in C++
  (and yields an infinity or a NaN under IEEE 754); the model marks it with \<open>None\<close>,
  so that a computation that returns \<open>Some\<close> has divided by no zero.
\<close>

definition fdiv :: "real \<Rightarrow> real \<Rightarrow> real option" where
  "fdiv a b = (if b = 0 then None else Some (a / b))"

text \<open>
  Lines 162 to 171. \<open>context->audio_us / 1e6\<close> is computed for the processing time and
  again for the real-time factor; the second division, by \<open>context->audio_input_s\<close>,
  is inside \<open>if (context->audio_input_s > 0.0f)\<close>.
\<close>

definition rtf_lines :: "LlmContext \<Rightarrow> 's event list option" where
  "rtf_lines context =
     (if audio_input_s context > 0 then
        (case fdiv (real_of_int (audio_us context)) 1000000 of
           None \<Rightarrow> None
         | Some proc_s \<Rightarrow>
             (case fdiv proc_s (audio_input_s context) of
                None \<Rightarrow> None
              | Some rtf \<Rightarrow>
                  Some [Cout (Str ''Audio RTF     : ''), Cout (RealV rtf), Cout (Str ''\<newline>'')]))
      else Some [])"

definition print_stats :: "LlmContext \<Rightarrow> 's event list option" where
  "print_stats context =
     (case fdiv (real_of_int (audio_us context)) 1000000 of
        None \<Rightarrow> None
      | Some proc_s \<Rightarrow>
          (case rtf_lines context of
             None \<Rightarrow> None
           | Some rtf \<Rightarrow>
               Some ([Cout (Str ''\<newline>\<newline>===== Stats =====\<newline>''),
                      Cout (Str ''Prompt tokens : ''), Cout (IntV (prompt_len context)),
                      Cout (Str ''\<newline>''),
                      Cout (Str ''Decode tokens : ''), Cout (IntV (gen_seq_len context)),
                      Cout (Str ''\<newline>''),
                      Cout (Str ''Audio input s : ''), Cout (RealV (audio_input_s context)),
                      Cout (Str ''\<newline>''),
                      Cout (Str ''Audio proc  s : ''), Cout (RealV proc_s),
                      Cout (Str ''\<newline>'')]
                     @ rtf
                     @ [Cout (Str ''=================\<newline>'')])))"

section \<open>The engine behind the demo\<close>

text \<open>
  The class \<open>Llm\<close> (\<open>createLLM\<close>, \<open>set_config\<close>, \<open>load\<close>,
  \<open>setWavformCallback\<close>, \<open>getContext\<close>, \<open>response\<close>, \<open>generateWavform\<close>) is
  declared in \<open>llm/llm.hpp\<close> and implemented outside the demo. The definitions of
  this section follow the specification of the engine; the tensor computations are
  parameters (the record \<open>world\<close>). Failures of the tensor backend (the specification's
  \<open>DecodeFailure\<close> and \<open>SynthesisFailure\<close>) are not modelled: each step is a total
  function of the world.
\<close>

text \<open>
  Modelled from the spec: the engine's error types are missing from the sources.
  The errors of the engine in the specification, section 7.
\<close>

datatype error = InvalidConfigError | DecodeFailure | SynthesisFailure

subsection \<open>Configuration\<close>

text \<open>
  Modelled from the spec: the configuration class of the engine is missing from the
  sources. The recognised options of the specification, section 6: \<open>tmp_path\<close>,
  \<open>async\<close>, \<open>talker_max_new_tokens\<close>, \<open>talker_speaker\<close>.
\<close>

record Config =
  tmp_path :: string
  async :: bool
  talker_max_new_tokens :: int
  talker_speaker :: string

text \<open>The keys that the specification names as recognised.\<close>

definition known_keys :: "string list" where
  "known_keys = [''tmp_path'', ''async'', ''talker_max_new_tokens'', ''talker_speaker'']"

text \<open>
  Modelled from the spec: the body of \<open>Llm::set_config\<close> is missing from the sources.
  One member of the configuration object is resolved against the current settings: a
  recognised key with a well-formed value overrides the setting, a malformed value for a
  recognised key (or a speaker outside the enumerated voice profiles \<open>speakers\<close>) is an
  \<open>InvalidConfigError\<close>, an unknown key is ignored.
\<close>

definition resolve_key :: "string list \<Rightarrow> Config \<Rightarrow> string \<times> jvalue \<Rightarrow> error + Config" where
  "resolve_key speakers c kv =
     (case kv of (k, v) \<Rightarrow>
        if k = ''tmp_path'' then
          (case v of JString s \<Rightarrow> Inr (c\<lparr>tmp_path := s\<rparr>) | _ \<Rightarrow> Inl InvalidConfigError)
        else if k = ''async'' then
          (case v of JBool b \<Rightarrow> Inr (c\<lparr>async := b\<rparr>) | _ \<Rightarrow> Inl InvalidConfigError)
        else if k = ''talker_max_new_tokens'' then
          (case v of JInt n \<Rightarrow> Inr (c\<lparr>talker_max_new_tokens := n\<rparr>)
                   | _ \<Rightarrow> Inl InvalidConfigError)
        else if k = ''talker_speaker'' then
          (case v of
             JString s \<Rightarrow> if s \<in> set speakers then Inr (c\<lparr>talker_speaker := s\<rparr>)
                          else Inl InvalidConfigError
           | _ \<Rightarrow> Inl InvalidConfigError)
        else Inr c)"

text \<open>
  Modelled from the spec: the body of \<open>Llm::set_config\<close> is missing from the sources.
  The members of a configuration object are resolved in order, so a later key overrides
  an earlier one; the first error ends the resolution.
\<close>

fun resolve :: "string list \<Rightarrow> Config \<Rightarrow> (string \<times> jvalue) list \<Rightarrow> error + Config" where
  "resolve speakers c [] = Inr c"
| "resolve speakers c (kv # kvs) =
     (case resolve_key speakers c kv of
        Inl e \<Rightarrow> Inl e
      | Inr c' \<Rightarrow> resolve speakers c' kvs)"

subsection \<open>The world and the engine's state\<close>

text \<open>
  Modelled from the spec: the collaborators of the engine are missing from the sources.
  The external collaborators: whether \<open>createLLM\<close> finds a configuration (and which),
  the enumerated voice profiles, whether \<open>load\<close> and \<open>AUDIO::save\<close> succeed, the
  audio front end's measurements for a prompt, the text decoder's next token and stop
  conditions, the Talker's next speech token and stop token, the chunk size, the vocoder
  and the time it takes.
\<close>

record 's world =
  createLLM :: "string \<Rightarrow> Config option"
  speakers :: "string list"
  load :: bool
  save :: "string \<Rightarrow> 's VARP \<Rightarrow> int \<Rightarrow> bool"
  prompt_tokens :: "string \<Rightarrow> int"
  audio_duration :: "string \<Rightarrow> real"
  audio_frontend_us :: "string \<Rightarrow> int"
  next_token :: "string \<Rightarrow> text_token list \<Rightarrow> text_token"
  eos :: text_token
  max_new_tokens :: nat
  talker_next :: "text_token list \<Rightarrow> speech_token list \<Rightarrow> speech_token"
  speech_eos :: speech_token
  chunk_size :: nat
  synthesize :: "speech_token list \<Rightarrow> 's list"
  vocoder_us :: "'s list \<Rightarrow> int"

text \<open>
  Modelled from the spec: the class \<open>Llm\<close> is missing from the sources.
  The states of the text decoder (section 4.2), and the engine's state: the resolved
  configuration, the decoder's state, the generation trace and the session context.
\<close>

datatype decoder_state = Idle | Prefilling | Decoding | Stopped

record Llm =
  config :: Config
  decoder :: decoder_state
  trace :: "text_token list"
  llm_context :: LlmContext

text \<open>
  Modelled from the spec: the body of \<open>Llm::createLLM\<close> is missing from the sources.
  A new engine has the configuration of its file, an idle decoder, an empty trace and
  counters at zero.
\<close>

definition new_Llm :: "Config \<Rightarrow> Llm" where
  "new_Llm c =
     \<lparr>config = c, decoder = Idle, trace = [],
      llm_context = \<lparr>prompt_len = 0, gen_seq_len = 0, audio_input_s = 0, audio_us = 0\<rparr>\<rparr>"

text \<open>
  Modelled from the spec: the body of \<open>Llm::set_config\<close> is missing from the sources.
  The object's settings are replaced by the resolved ones; an error leaves no new object.
\<close>

definition set_config :: "'s world \<Rightarrow> Llm \<Rightarrow> (string \<times> jvalue) list \<Rightarrow> error + Llm" where
  "set_config w llm kvs =
     (case resolve (speakers w) (config llm) kvs of
        Inl e \<Rightarrow> Inl e
      | Inr c \<Rightarrow> Inr (llm\<lparr>config := c\<rparr>))"

subsection \<open>Text decoding\<close>

text \<open>
  Modelled from the spec: the body of \<open>Llm::response\<close> is missing from the sources.
  The decoding loop of section 4.2: select a token, append it to the generation trace,
  stop when it is the end-of-sequence marker or when the trace has reached the
  configured maximum. \<open>budget\<close> is the maximum minus the length of the trace.
\<close>

fun decode ::
  "(text_token list \<Rightarrow> text_token) \<Rightarrow> text_token \<Rightarrow> nat \<Rightarrow> text_token list \<Rightarrow> text_token list" where
  "decode next stop 0 tr = tr"
| "decode next stop (Suc budget) tr =
     (let t = next tr; tr' = tr @ [t]
      in if t = stop then tr' else decode next stop budget tr')"

fun is_TextCommitted :: "'s event \<Rightarrow> bool" where
  "is_TextCommitted (TextCommitted i t) = True"
| "is_TextCommitted e = False"

text \<open>The events of committing a trace, position by position.\<close>

definition commits :: "text_token list \<Rightarrow> 's event list" where
  "commits tr = map (\<lambda>i. TextCommitted i (tr ! i)) [0..<length tr]"

text \<open>
  Modelled from the spec: the body of \<open>Llm::response\<close> is missing from the sources.
  With \<open>async\<close> false the decoder runs to \<open>Stopped\<close> before the call returns, and the
  session counters are written. With \<open>async\<close> true the call returns while the decoder
  is still \<open>Decoding\<close>; nothing is committed when it returns (the demo's comment, lines
  111 and 112: \<open>gen_seq_len\<close> stays 0), and what the decoder does afterwards is not
  modelled.
\<close>

definition response :: "'s world \<Rightarrow> Llm \<Rightarrow> string \<Rightarrow> Llm \<times> 's event list" where
  "response w llm prompt =
     (if async (config llm) then (llm\<lparr>decoder := Decoding, trace := []\<rparr>, [])
      else
        let tr = decode (next_token w prompt) (eos w) (max_new_tokens w) []
        in (llm\<lparr>decoder := Stopped, trace := tr,
                 llm_context :=
                   \<lparr>prompt_len = prompt_tokens w prompt, gen_seq_len = int (length tr),
                    audio_input_s = audio_duration w prompt,
                    audio_us = audio_frontend_us w prompt\<rparr>\<rparr>,
            commits tr))"

subsection \<open>Talker, vocoder and the waveform stream\<close>

text \<open>
  Modelled from the spec: the body of \<open>Llm::generateWavform\<close> is missing from the sources.
  How a call of \<open>generateWavform\<close> ends: all speech was delivered, the callback asked
  to stop (reported as success with partial output, not as an error), or the Talker was
  skipped because the generation trace is empty.
\<close>

datatype outcome = Completed | SuccessPartial | Skipped

text \<open>
  Modelled from the spec: the body of \<open>Llm::generateWavform\<close> is missing from the sources.
  One delivery to the stream sink (sections 4.4 and 4.5): the buffered speech tokens are
  vocoded and handed to the callback with the terminal flag; the callback's answer is
  recorded in the \<open>Chunk\<close> event, followed by the callback's own effects.
\<close>

definition deliver ::
  "'s world \<Rightarrow> ('s list \<Rightarrow> bool \<Rightarrow> 'a \<Rightarrow> bool \<times> 'a \<times> 's effect list) \<Rightarrow> speech_token list \<Rightarrow> bool \<Rightarrow> 'a
     \<Rightarrow> bool \<times> 'a \<times> 's event list" where
  "deliver w sink buf is_terminal st =
     (let samples = synthesize w buf in
      case sink samples is_terminal st of
        (continue, st', effects) \<Rightarrow>
          (continue, st', Chunk samples is_terminal continue # map Effect effects))"

text \<open>
  Modelled from the spec: the body of \<open>Llm::generateWavform\<close> is missing from the sources.
  The Talker's loop (section 4.3) coupled to the vocoder (4.4) and the sink (4.5).
  \<open>budget\<close> is what is left of \<open>talker_max_new_tokens\<close>, \<open>sofar\<close> the speech tokens
  emitted, \<open>buf\<close> those not yet vocoded. A speech token is emitted from the generation
  trace and the tokens so far; a full buffer is vocoded and delivered as a non-terminal
  chunk, and generation goes on only if the callback answers true. When the Talker stops
  (speech end-of-sequence, or the bound), what is left in the buffer is delivered as the
  terminal chunk.
\<close>

fun talk ::
  "'s world \<Rightarrow> ('s list \<Rightarrow> bool \<Rightarrow> 'a \<Rightarrow> bool \<times> 'a \<times> 's effect list) \<Rightarrow> text_token list \<Rightarrow> nat
     \<Rightarrow> speech_token list \<Rightarrow> speech_token list \<Rightarrow> 'a \<Rightarrow> outcome \<times> 'a \<times> 's event list" where
  "talk w sink tr 0 sofar buf st =
     (case deliver w sink buf True st of
        (continue, st', evs) \<Rightarrow> (if continue then Completed else SuccessPartial, st', evs))"
| "talk w sink tr (Suc budget) sofar buf st =
     (let t = talker_next w tr sofar in
      if t = speech_eos w then
        (case deliver w sink buf True st of
           (continue, st', evs) \<Rightarrow> (if continue then Completed else SuccessPartial, st', evs))
      else
        let buf' = buf @ [t]; sofar' = sofar @ [t]; emitted = SpeechEmitted (length sofar) t in
        if chunk_size w \<le> length buf' then
          (case deliver w sink buf' False st of
             (continue, st', evs) \<Rightarrow>
               if continue then
                 (case talk w sink tr budget sofar' [] st' of
                    (oc, st'', rest) \<Rightarrow> (oc, st'', emitted # evs @ rest))
               else (SuccessPartial, st', emitted # evs))
        else
          (case talk w sink tr budget sofar' buf' st of
             (oc, st', rest) \<Rightarrow> (oc, st', emitted # rest)))"

text \<open>The chunks delivered in a run: samples, terminal flag, the callback's answer.\<close>

fun delivered :: "'s event list \<Rightarrow> ('s list \<times> bool \<times> bool) list" where
  "delivered [] = []"
| "delivered (Chunk samples is_terminal continue # evs) =
     (samples, is_terminal, continue) # delivered evs"
| "delivered (e # evs) = delivered evs"

text \<open>The effects of the callback among the events of a run, in order.\<close>

fun effects_of :: "'s event list \<Rightarrow> 's effect list" where
  "effects_of [] = []"
| "effects_of (Effect e # evs) = e # effects_of evs"
| "effects_of (e # evs) = effects_of evs"

text \<open>
  The events after which the Talker's loop goes on: a speech token, a non-terminal chunk
  that the callback acknowledged with true, and the callback's effects.
\<close>

fun streaming :: "'s event \<Rightarrow> bool" where
  "streaming (SpeechEmitted i t) = True"
| "streaming (Chunk samples is_terminal continue) = (\<not> is_terminal \<and> continue)"
| "streaming (Effect e) = True"
| "streaming e = False"

text \<open>What the engine produces: speech tokens and chunks.\<close>

fun is_production :: "'s event \<Rightarrow> bool" where
  "is_production (SpeechEmitted i t) = True"
| "is_production (Chunk samples is_terminal continue) = True"
| "is_production e = False"

text \<open>
  Modelled from the spec: the body of \<open>Llm::generateWavform\<close> is missing from the sources.
  The Talker is skipped on an empty generation trace; otherwise it runs within the
  configured bound, and the time spent in the vocoder is added to the audio processing
  time of the session.
\<close>

definition generateWavform ::
  "'s world \<Rightarrow> ('s list \<Rightarrow> bool \<Rightarrow> 'a \<Rightarrow> bool \<times> 'a \<times> 's effect list) \<Rightarrow> Llm \<Rightarrow> 'a
     \<Rightarrow> outcome \<times> Llm \<times> 'a \<times> 's event list" where
  "generateWavform w sink llm st =
     (if trace llm = [] then (Skipped, llm, st, [])
      else
        (case talk w sink (trace llm) (nat (talker_max_new_tokens (config llm))) [] [] st of
           (oc, st', evs) \<Rightarrow>
             (oc,
              llm\<lparr>llm_context := (llm_context llm)
                     \<lparr>audio_us := audio_us (llm_context llm)
                         + sum_list (map (\<lambda>d. vocoder_us w (fst d)) (delivered evs))\<rparr>\<rparr>,
              st', evs)))"

section \<open>main\<close>

text \<open>
  How the program ends: \<open>return\<close> with an exit code, an exception of the engine that
  the demo does not catch, or undefined behaviour (a division by zero).
\<close>

datatype exit = Return int | Throw error | Undefined

text \<open>
  The callback as the engine sees it: a stream sink whose state is the captured vector.
\<close>

definition demo_sink ::
  "'s world \<Rightarrow> string \<Rightarrow> 's list \<Rightarrow> bool \<Rightarrow> 's list \<Rightarrow> bool \<times> 's list \<times> 's effect list" where
  "demo_sink w outWave chunk last_chunk waveform =
     wavformCallback (save w) outWave waveform chunk last_chunk"

text \<open>
  Lines 144 to 173, after a successful \<open>load\<close>: the callback is registered, the prompt
  is built and printed, the context pointer is taken, \<open>response\<close> and then
  \<open>generateWavform\<close> are called, and the statistics are printed.
\<close>

definition run_session :: "'s world \<Rightarrow> Llm \<Rightarrow> string \<Rightarrow> string \<Rightarrow> string \<Rightarrow> exit \<times> 's event list" where
  "run_session w llm audioPath outWave question =
     (let prompt = buildAudioPrompt audioPath question;
          before = [SetWavformCallback,
                    Cout (Str ''\<newline>==== Prompt ====\<newline>''), Cout (Str prompt),
                    Cout (Str ''\<newline>================\<newline>''),
                    GetContext, Response prompt]
      in case response w llm prompt of
           (llm1, text_events) \<Rightarrow>
             (case generateWavform w (demo_sink w outWave) llm1 [] of
                (oc, llm2, waveform, speech_events) \<Rightarrow>
                  (case print_stats (llm_context llm2) of
                     None \<Rightarrow>
                       (Undefined, before @ text_events @ GenerateWavform # speech_events)
                   | Some stats \<Rightarrow>
                       (Return 0,
                        before @ text_events @ GenerateWavform # speech_events @ stats))))"

text \<open>
  \<open>main\<close>. A hosted environment passes the program name as \<open>argv[0]\<close>, so
  \<open>argv\<close> is \<open>prog # args\<close> and \<open>argc\<close> is its length. The two JSON objects given
  to \<open>set_config\<close> are written as their members.
\<close>

definition main :: "'s world \<Rightarrow> string \<Rightarrow> string list \<Rightarrow> exit \<times> 's event list" where
  "main w prog args =
     (let argv = prog # args; argc = length argv in
      if argc < 3 then (Return 0, usage (argv ! 0))
      else
        let configPath = argv ! 1;
            audioPath = argv ! 2;
            outWave = parse_outWave argv;
            question = parse_question argv;
            ev1 = [Cout (Str ''Config : ''), Cout (Str configPath), Cout (Str ''\<newline>''),
                   Cout (Str ''Audio  : ''), Cout (Str audioPath), Cout (Str ''\<newline>''),
                   Cout (Str ''OutWav : ''), Cout (Str outWave), Cout (Str ''\<newline>''),
                   NewExecutor, CreateLLM configPath]
        in case createLLM w configPath of
             None \<Rightarrow>
               (Return 1, ev1 @ [Effect (MNN_ERROR ''Create LLM failed, check config.json path.\<newline>'')])
           | Some c \<Rightarrow>
               let ev2 = ev1 @ [SetConfig [(''tmp_path'', JString ''tmp'')]] in
               (case set_config w (new_Llm c) [(''tmp_path'', JString ''tmp'')] of
                  Inl e \<Rightarrow> (Throw e, ev2)
                | Inr llm1 \<Rightarrow>
                    let ev3 = ev2 @ [SetConfig [(''async'', JBool False)]] in
                    (case set_config w llm1 [(''async'', JBool False)] of
                       Inl e \<Rightarrow> (Throw e, ev3)
                     | Inr llm2 \<Rightarrow>
                         if \<not> load w then
                           (Return 1,
                            ev3 @ [Load,
                                   Effect (MNN_ERROR
                                     ''LLM load failed, please check your Omni model files.\<newline>''),
                                   AUTOTIME])
                         else
                           (case run_session w llm2 audioPath outWave question of
                              (e, evs) \<Rightarrow> (e, ev3 @ [Load, AUTOTIME] @ evs)))))"

text \<open>
  What \<open>main\<close> has done when \<open>load\<close> has succeeded: lines 94 to 117.
\<close>

definition demo_prelude :: "string list \<Rightarrow> 's event list" where
  "demo_prelude argv =
     [Cout (Str ''Config : ''), Cout (Str (argv ! 1)), Cout (Str ''\<newline>''),
      Cout (Str ''Audio  : ''), Cout (Str (argv ! 2)), Cout (Str ''\<newline>''),
      Cout (Str ''OutWav : ''), Cout (Str (parse_outWave argv)), Cout (Str ''\<newline>''),
      NewExecutor, CreateLLM (argv ! 1),
      SetConfig [(''tmp_path'', JString ''tmp'')], SetConfig [(''async'', JBool False)],
      Load, AUTOTIME]"

section \<open>A concrete world\<close>

text \<open>
  A small world on which the definitions can be run: the configuration file
  \<open>config.json\<close> exists, text decoding yields two tokens and the end-of-sequence
  marker, the Talker yields three speech tokens, chunks hold two tokens, and a sample is
  the number of its speech token.
\<close>

definition example_config :: Config where
  "example_config =
     \<lparr>tmp_path = ''/tmp'', async = True, talker_max_new_tokens = 5,
      talker_speaker = ''Chelsie''\<rparr>"

definition example_world :: "nat world" where
  "example_world =
     \<lparr>createLLM = (\<lambda>p. if p = ''config.json'' then Some example_config else None),
      speakers = [''Chelsie'', ''Ethan''],
      load = True,
      save = (\<lambda>p v r. True),
      prompt_tokens = (\<lambda>p. int (length p)),
      audio_duration = (\<lambda>p. 5),
      audio_frontend_us = (\<lambda>p. 2000000),
      next_token = (\<lambda>p tr. if length tr < 2 then Text (int (length tr) + 10) else Text 0),
      eos = Text 0,
      max_new_tokens = 8,
      talker_next = (\<lambda>tr sp. if length sp < 3 then Speech (int (length sp) + 1) else Speech 0),
      speech_eos = Speech 0,
      chunk_size = 2,
      synthesize = map (\<lambda>t. case t of Speech n \<Rightarrow> nat n),
      vocoder_us = (\<lambda>s. 1000)\<rparr>"

text \<open>An engine whose text decoding has stopped with three tokens in the trace.\<close>

definition example_llm :: Llm where
  "example_llm =
     (new_Llm example_config)\<lparr>decoder := Stopped, trace := [Text 10, Text 11, Text 0]\<rparr>"

text \<open>The same world with a Talker that stops at once: no speech token is emitted.\<close>

definition silent_world :: "nat world" where
  "silent_world = example_world\<lparr>talker_next := (\<lambda>tr sp. Speech 0)\<rparr>"

section \<open>Auxiliary facts\<close>

subsection \<open>The question loop\<close>

lemma question_loop_tail:
  "4 < i \<Longrightarrow> i \<le> length argv \<Longrightarrow>
     question_loop argv i q = q @ concat (map (\<lambda>s. '' '' @ s) (drop i argv))"
proof (induction argv i q rule: question_loop.induct)
  case (1 argv i q)
  show ?case
  proof (cases "i < length argv")
    case True
    have d: "drop i argv = argv ! i # drop (Suc i) argv"
      using True by (simp add: Cons_nth_drop_Suc)
    have "question_loop argv i q = question_loop argv (Suc i) (put (put q '' '') (argv ! i))"
      using True "1.prems" by (subst question_loop.simps) simp
    also have "\<dots> = put (put q '' '') (argv ! i) @ concat (map (\<lambda>s. '' '' @ s) (drop (Suc i) argv))"
      using "1.IH" [OF True] True "1.prems" by simp
    finally show ?thesis by (simp add: d put_def)
  next
    case False
    then have "i = length argv" using "1.prems" by simp
    then show ?thesis by (subst question_loop.simps) simp
  qed
qed

lemma space_joined_Cons:
  "space_joined (s # ss) = s @ concat (map (\<lambda>t. '' '' @ t) ss)"
  by (induction ss arbitrary: s) auto

lemma parse_question_joined:
  assumes "5 \<le> length argv"
  shows "parse_question argv = space_joined (drop 4 argv)"
proof -
  have d: "drop 4 argv = argv ! 4 # drop 5 argv"
    using assms Cons_nth_drop_Suc [of 4 argv] by simp
  have "question_loop argv 4 [] = question_loop argv 5 (put [] (argv ! 4))"
    using assms by (subst question_loop.simps) (simp add: eval_nat_numeral)
  also have "\<dots> = put [] (argv ! 4) @ concat (map (\<lambda>s. '' '' @ s) (drop 5 argv))"
    using assms by (simp add: question_loop_tail)
  finally show ?thesis
    using assms by (simp add: parse_question_def str_def put_def d space_joined_Cons)
qed

subsection \<open>The callback over a sequence of deliveries\<close>

lemma callbacks_nonterminal:
  "\<forall>d\<in>set ds. \<not> snd d \<Longrightarrow>
     callbacks save_ok outWave waveform ds = (replicate (length ds) [], waveform @ concat (map fst ds))"
  by (induction ds arbitrary: waveform) (auto simp: wavformCallback_def)

lemma callbacks_append:
  "callbacks save_ok outWave waveform (xs @ ys) =
     (case callbacks save_ok outWave waveform xs of
        (e1, waveform1) \<Rightarrow>
          (case callbacks save_ok outWave waveform1 ys of
             (e2, waveform2) \<Rightarrow> (e1 @ e2, waveform2)))"
  by (induction xs arbitrary: waveform) (auto split: prod.splits)

lemma callbacks_terminal:
  "callbacks save_ok outWave waveform [(chunk, True)] =
     ([saveWaveToFile save_ok (waveform @ chunk) outWave default_sampleRate], [])"
  by (simp add: wavformCallback_def)

lemma callbacks_after_terminal:
  "pre = [] \<or> snd (last pre) \<Longrightarrow> snd (callbacks save_ok outWave [] pre) = []"
proof (cases pre rule: rev_cases)
  case Nil
  then show ?thesis by simp
next
  case (snoc ys y)
  assume "pre = [] \<or> snd (last pre)"
  with snoc obtain c where y: "y = (c, True)" by (cases y) auto
  show ?thesis
    unfolding snoc y callbacks_append
    by (simp add: wavformCallback_def split: prod.splits)
qed


subsection \<open>Configuration resolution\<close>

lemma resolve_key_frame:
  "resolve_key sp c kv = Inr c1 \<Longrightarrow> resolve_key sp c2 kv = Inr c21 \<Longrightarrow>
     (tmp_path c1 = tmp_path c21 \<or> tmp_path c1 = tmp_path c \<and> tmp_path c21 = tmp_path c2)
   \<and> (async c1 = async c21 \<or> async c1 = async c \<and> async c21 = async c2)
   \<and> (talker_max_new_tokens c1 = talker_max_new_tokens c21
        \<or> talker_max_new_tokens c1 = talker_max_new_tokens c
           \<and> talker_max_new_tokens c21 = talker_max_new_tokens c2)
   \<and> (talker_speaker c1 = talker_speaker c21
        \<or> talker_speaker c1 = talker_speaker c \<and> talker_speaker c21 = talker_speaker c2)"
  by (auto simp: resolve_key_def split: prod.splits if_splits jvalue.splits)

lemma resolve_key_error_free:
  "resolve_key sp c kv = Inl e \<Longrightarrow> resolve_key sp c2 kv = Inl e"
  by (auto simp: resolve_key_def split: prod.splits if_splits jvalue.splits)

lemma resolve_error_free:
  "resolve sp c kvs = Inl e \<Longrightarrow> resolve sp c2 kvs = Inl e"
proof (induction kvs arbitrary: c c2)
  case Nil
  then show ?case by simp
next
  case (Cons kv kvs)
  show ?case
  proof (cases "resolve_key sp c kv")
    case (Inl e')
    then show ?thesis using Cons.prems resolve_key_error_free [OF Inl, of c2] by simp
  next
    case (Inr c1)
    show ?thesis
    proof (cases "resolve_key sp c2 kv")
      case (Inl e')
      then show ?thesis using resolve_key_error_free [OF Inl, of c] Inr by simp
    next
      case r2: (Inr c21)
      then show ?thesis using Cons.prems Inr Cons.IH [of c1 c21] by simp
    qed
  qed
qed

lemma resolve_success_free:
  "resolve sp c kvs = Inr c' \<Longrightarrow> \<exists>c2'. resolve sp c2 kvs = Inr c2'"
  using resolve_error_free [of sp c2 kvs _ c] by (cases "resolve sp c2 kvs") auto

lemma resolve_frame:
  "resolve sp c kvs = Inr c' \<Longrightarrow> resolve sp c2 kvs = Inr c2' \<Longrightarrow>
     (tmp_path c' = tmp_path c2' \<or> tmp_path c' = tmp_path c \<and> tmp_path c2' = tmp_path c2)
   \<and> (async c' = async c2' \<or> async c' = async c \<and> async c2' = async c2)
   \<and> (talker_max_new_tokens c' = talker_max_new_tokens c2'
        \<or> talker_max_new_tokens c' = talker_max_new_tokens c
           \<and> talker_max_new_tokens c2' = talker_max_new_tokens c2)
   \<and> (talker_speaker c' = talker_speaker c2'
        \<or> talker_speaker c' = talker_speaker c \<and> talker_speaker c2' = talker_speaker c2)"
proof (induction kvs arbitrary: c c2)
  case Nil
  then show ?case by simp
next
  case (Cons kv kvs)
  from Cons.prems obtain c1 where 1: "resolve_key sp c kv = Inr c1" "resolve sp c1 kvs = Inr c'"
    by (auto split: sum.splits)
  from Cons.prems obtain c21 where 2: "resolve_key sp c2 kv = Inr c21" "resolve sp c21 kvs = Inr c2'"
    by (auto split: sum.splits)
  from resolve_key_frame [OF 1(1) 2(1)] Cons.IH [OF 1(2) 2(2)]
  show ?case by metis
qed

lemma resolve_idem:
  assumes "resolve sp c kvs = Inr c'"
  shows "resolve sp c' kvs = Inr c'"
proof -
  from resolve_success_free [OF assms, of c'] obtain c'' where r: "resolve sp c' kvs = Inr c''"
    by blast
  from resolve_frame [OF assms r] have "c'' = c'"
    by (intro Config.equality) auto
  with r show ?thesis by simp
qed

lemma resolve_append:
  "resolve sp c (xs @ ys) =
     (case resolve sp c xs of Inl e \<Rightarrow> Inl e | Inr c1 \<Rightarrow> resolve sp c1 ys)"
  by (induction xs arbitrary: c) (auto split: sum.splits)

lemma resolve_unknown_filtered:
  "resolve sp c (filter (\<lambda>kv. fst kv \<in> set known_keys) kvs) = resolve sp c kvs"
proof (induction kvs arbitrary: c)
  case Nil
  show ?case by simp
next
  case (Cons kv kvs)
  show ?case
  proof (cases "fst kv \<in> set known_keys")
    case True
    then show ?thesis using Cons by (simp split: sum.splits)
  next
    case False
    then have "resolve_key sp c kv = Inr c"
      by (cases kv) (simp add: resolve_key_def known_keys_def)
    then show ?thesis using False Cons by simp
  qed
qed

lemma resolve_snoc:
  "resolve sp c (kvs @ [kv]) = Inr c' \<Longrightarrow>
     \<exists>c1. resolve sp c kvs = Inr c1 \<and> resolve_key sp c1 kv = Inr c'"
  by (auto simp: resolve_append split: sum.splits)

lemma resolve_key_fields:
  "resolve_key sp c1 (k, v) = Inr c' \<Longrightarrow>
     (if k = ''tmp_path'' then v = JString (tmp_path c') else tmp_path c' = tmp_path c1)
   \<and> (if k = ''async'' then v = JBool (async c') else async c' = async c1)
   \<and> (if k = ''talker_max_new_tokens'' then v = JInt (talker_max_new_tokens c')
        else talker_max_new_tokens c' = talker_max_new_tokens c1)
   \<and> (if k = ''talker_speaker'' then v = JString (talker_speaker c')
        else talker_speaker c' = talker_speaker c1)"
  by (auto simp: resolve_key_def split: if_splits jvalue.splits)

lemma resolve_last_wins:
  "resolve sp c kvs = Inr c' \<Longrightarrow>
     tmp_path c' = (case map_of (rev kvs) ''tmp_path'' of Some (JString s) \<Rightarrow> s | _ \<Rightarrow> tmp_path c)
   \<and> async c' = (case map_of (rev kvs) ''async'' of Some (JBool b) \<Rightarrow> b | _ \<Rightarrow> async c)
   \<and> talker_max_new_tokens c' =
       (case map_of (rev kvs) ''talker_max_new_tokens'' of Some (JInt n) \<Rightarrow> n
          | _ \<Rightarrow> talker_max_new_tokens c)
   \<and> talker_speaker c' =
       (case map_of (rev kvs) ''talker_speaker'' of Some (JString s) \<Rightarrow> s
          | _ \<Rightarrow> talker_speaker c)"
proof (induction kvs arbitrary: c' rule: rev_induct)
  case Nil
  then show ?case by simp
next
  case (snoc kv kvs)
  from resolve_snoc [OF snoc.prems] obtain c1 where
    1: "resolve sp c kvs = Inr c1" and 2: "resolve_key sp c1 kv = Inr c'" by blast
  note ih = snoc.IH [OF 1]
  obtain k v where kv: "kv = (k, v)" by (cases kv)
  note f = resolve_key_fields [OF 2 [unfolded kv]]
  have a: "tmp_path c' = (case map_of (rev (kvs @ [kv])) ''tmp_path'' of
             Some (JString s) \<Rightarrow> s | _ \<Rightarrow> tmp_path c)"
  proof (cases "k = ''tmp_path''")
    case True
    with f have "v = JString (tmp_path c')" by simp
    then show ?thesis using True by (simp add: kv)
  next
    case False
    with f have "tmp_path c' = tmp_path c1" by simp
    also note ih [THEN conjunct1]
    finally show ?thesis using False by (simp add: kv)
  qed
  have b: "async c' = (case map_of (rev (kvs @ [kv])) ''async'' of
             Some (JBool b) \<Rightarrow> b | _ \<Rightarrow> async c)"
  proof (cases "k = ''async''")
    case True
    with f have "v = JBool (async c')" by simp
    then show ?thesis using True by (simp add: kv)
  next
    case False
    with f have "async c' = async c1" by simp
    also note ih [THEN conjunct2, THEN conjunct1]
    finally show ?thesis using False by (simp add: kv)
  qed
  have c: "talker_max_new_tokens c' = (case map_of (rev (kvs @ [kv])) ''talker_max_new_tokens'' of
             Some (JInt n) \<Rightarrow> n | _ \<Rightarrow> talker_max_new_tokens c)"
  proof (cases "k = ''talker_max_new_tokens''")
    case True
    with f have "v = JInt (talker_max_new_tokens c')" by simp
    then show ?thesis using True by (simp add: kv)
  next
    case False
    with f have "talker_max_new_tokens c' = talker_max_new_tokens c1" by simp
    also note ih [THEN conjunct2, THEN conjunct2, THEN conjunct1]
    finally show ?thesis using False by (simp add: kv)
  qed
  have d: "talker_speaker c' = (case map_of (rev (kvs @ [kv])) ''talker_speaker'' of
             Some (JString s) \<Rightarrow> s | _ \<Rightarrow> talker_speaker c)"
  proof (cases "k = ''talker_speaker''")
    case True
    with f have "v = JString (talker_speaker c')" by simp
    then show ?thesis using True by (simp add: kv)
  next
    case False
    with f have "talker_speaker c' = talker_speaker c1" by simp
    also note ih [THEN conjunct2, THEN conjunct2, THEN conjunct2]
    finally show ?thesis using False by (simp add: kv)
  qed
  from a b c d show ?case by blast
qed

subsection \<open>The Talker's loop\<close>

lemma delivered_append: "delivered (xs @ ys) = delivered xs @ delivered ys"
  by (induction xs rule: delivered.induct) auto

lemma delivered_effects: "delivered (map Effect effs) = []"
  by (induction effs) auto

lemma production_effects: "filter is_production (map Effect effs) = []"
  by (induction effs) auto

lemma committed_effects: "filter is_TextCommitted (map Effect effs) = []"
  by (induction effs) auto

lemma deliver_shape:
  "deliver w sink buf t st = (a, st', evs) \<Longrightarrow>
     \<exists>effs. evs = Chunk (synthesize w buf) t a # map Effect effs \<and> sink (synthesize w buf) t st = (a, st', effs)"
  by (auto simp: deliver_def Let_def split: prod.splits)

lemma talk_shape:
  "talk w sink tr n sofar buf st = (oc, st', evs) \<Longrightarrow>
     \<exists>body s t a effs x. evs = body @ Chunk s t a # map Effect effs \<and> list_all streaming body
        \<and> (t \<or> \<not> a) \<and> oc = (if a then Completed else SuccessPartial)
        \<and> sink s t x = (a, st', effs)"
proof (induction n arbitrary: sofar buf st oc st' evs)
  case 0
  then obtain a where d: "deliver w sink buf True st = (a, st', evs)"
    and oc: "oc = (if a then Completed else SuccessPartial)"
    by (auto split: prod.splits)
  from deliver_shape [OF d] obtain effs where
    "evs = [] @ Chunk (synthesize w buf) True a # map Effect effs"
    "sink (synthesize w buf) True st = (a, st', effs)"
    by auto
  moreover have "list_all streaming ([] :: 's event list)" by simp
  ultimately show ?case using oc by blast
next
  case (Suc n)
  let ?t = "talker_next w tr sofar"
  show ?case
  proof (cases "?t = speech_eos w")
    case True
    with Suc.prems obtain a where d: "deliver w sink buf True st = (a, st', evs)"
      and oc: "oc = (if a then Completed else SuccessPartial)"
      by (auto split: prod.splits)
    from deliver_shape [OF d] obtain effs where
      "evs = [] @ Chunk (synthesize w buf) True a # map Effect effs"
      "sink (synthesize w buf) True st = (a, st', effs)"
      by auto
    moreover have "list_all streaming ([] :: 's event list)" by simp
    ultimately show ?thesis using oc by blast
  next
    case False
    show ?thesis
    proof (cases "chunk_size w \<le> length (buf @ [?t])")
      case full: True
      obtain a st1 ev1 where d: "deliver w sink (buf @ [?t]) False st = (a, st1, ev1)"
        by (metis prod_cases3)
      from deliver_shape [OF d] obtain effs where
        ev1: "ev1 = Chunk (synthesize w (buf @ [?t])) False a # map Effect effs"
        and sk: "sink (synthesize w (buf @ [?t])) False st = (a, st1, effs)" by auto
      show ?thesis
      proof (cases a)
        case True
        obtain oc2 st2 rest where r: "talk w sink tr n (sofar @ [?t]) [] st1 = (oc2, st2, rest)"
          by (metis prod_cases3)
        from Suc.prems False full d True r
        have e: "evs = SpeechEmitted (length sofar) ?t # ev1 @ rest" and o: "oc = oc2" "st' = st2"
          by (auto simp: Let_def)
        from Suc.IH [OF r] obtain body s t a' effs' x where
          b: "rest = body @ Chunk s t a' # map Effect effs'" "list_all streaming body"
             "t \<or> \<not> a'" "oc2 = (if a' then Completed else SuccessPartial)"
             "sink s t x = (a', st2, effs')"
          by blast
        have "evs = (SpeechEmitted (length sofar) ?t # ev1 @ body) @ Chunk s t a' # map Effect effs'"
          using e b(1) by simp
        moreover have "list_all streaming (SpeechEmitted (length sofar) ?t # ev1 @ body)"
          using b(2) ev1 True by (auto simp add: list_all_iff)
        ultimately show ?thesis using b(3,4,5) o by blast
      next
        case nocont: False
        from Suc.prems False full d nocont
        have e: "evs = [SpeechEmitted (length sofar) ?t]
                   @ Chunk (synthesize w (buf @ [?t])) False a # map Effect effs"
          and o: "oc = SuccessPartial" "st' = st1"
          by (auto simp: Let_def ev1)
        have "list_all streaming [SpeechEmitted (length sofar) ?t :: 's event]" by simp
        moreover have "oc = (if a then Completed else SuccessPartial)" using o nocont by simp
        moreover have "False \<or> \<not> a" using nocont by simp
        ultimately show ?thesis using e sk o(2) by blast
      qed
    next
      case notfull: False
      obtain oc2 st2 rest where
        r: "talk w sink tr n (sofar @ [?t]) (buf @ [?t]) st = (oc2, st2, rest)"
        by (metis prod_cases3)
      from Suc.prems False notfull r
      have e: "evs = SpeechEmitted (length sofar) ?t # rest" and o: "oc = oc2" "st' = st2"
        by (auto simp: Let_def)
      from Suc.IH [OF r] obtain body s t a' effs' x where
        b: "rest = body @ Chunk s t a' # map Effect effs'" "list_all streaming body"
           "t \<or> \<not> a'" "oc2 = (if a' then Completed else SuccessPartial)"
           "sink s t x = (a', st2, effs')"
        by blast
      have "evs = (SpeechEmitted (length sofar) ?t # body) @ Chunk s t a' # map Effect effs'"
        using e b(1) by simp
      moreover have "list_all streaming (SpeechEmitted (length sofar) ?t # body)"
        using b(2) by simp
      ultimately show ?thesis using b(3,4,5) o by blast
    qed
  qed
qed

lemma deliver_demo_nonterminal:
  "deliver w (demo_sink w outWave) buf False st
     = (True, st @ synthesize w buf, [Chunk (synthesize w buf) False True])"
  by (simp add: deliver_def demo_sink_def wavformCallback_def Let_def)

lemma deliver_demo_terminal:
  "deliver w (demo_sink w outWave) buf True st
     = (True, [], Chunk (synthesize w buf) True True
          # map Effect (saveWaveToFile (save w) (st @ synthesize w buf) outWave default_sampleRate))"
  by (simp add: deliver_def demo_sink_def wavformCallback_def Let_def)

lemma talk_demo:
  fixes w :: "'s world"
  shows "talk w (demo_sink w outWave) tr n sofar buf st = (oc, st', evs) \<Longrightarrow>
     oc = Completed \<and> st' = [] \<and>
     (\<exists>body s. evs = body @ Chunk s True True
          # map Effect (saveWaveToFile (save w) (st @ concat (map fst (delivered body)) @ s)
                          outWave default_sampleRate)
        \<and> list_all is_production body)"
proof (induction n arbitrary: sofar buf st oc st' evs)
  case 0
  then have "oc = Completed" "st' = []"
    "evs = [] @ Chunk (synthesize w buf) True True
       # map Effect (saveWaveToFile (save w) (st @ concat (map fst (delivered ([] :: 's event list))) @ synthesize w buf)
           outWave default_sampleRate)"
    by (auto simp: deliver_demo_terminal)
  moreover have "list_all is_production ([] :: 's event list)" by simp
  ultimately show ?case by blast
next
  case (Suc n)
  let ?t = "talker_next w tr sofar"
  show ?case
  proof (cases "?t = speech_eos w")
    case True
    with Suc.prems have "oc = Completed" "st' = []"
      "evs = [] @ Chunk (synthesize w buf) True True
         # map Effect (saveWaveToFile (save w) (st @ concat (map fst (delivered ([] :: 's event list))) @ synthesize w buf)
             outWave default_sampleRate)"
      by (auto simp: deliver_demo_terminal)
    moreover have "list_all is_production ([] :: 's event list)" by simp
    ultimately show ?thesis by blast
  next
    case False
    show ?thesis
    proof (cases "chunk_size w \<le> length (buf @ [?t])")
      case full: True
      let ?c = "synthesize w (buf @ [?t])"
      obtain oc2 st2 rest where
        r: "talk w (demo_sink w outWave) tr n (sofar @ [?t]) [] (st @ ?c) = (oc2, st2, rest)"
        by (metis prod_cases3)
      from Suc.prems False full r
      have e: "evs = SpeechEmitted (length sofar) ?t # Chunk ?c False True # rest"
        and o: "oc = oc2" "st' = st2"
        by (auto simp: Let_def deliver_demo_nonterminal)
      from Suc.IH [OF r] obtain body s where
        b: "oc2 = Completed" "st2 = []"
           "rest = body @ Chunk s True True
              # map Effect (saveWaveToFile (save w) ((st @ ?c) @ concat (map fst (delivered body)) @ s)
                  outWave default_sampleRate)"
           "list_all is_production body"
        by blast
      let ?body = "SpeechEmitted (length sofar) ?t # Chunk ?c False True # body"
      have "evs = ?body @ Chunk s True True
              # map Effect (saveWaveToFile (save w) (st @ concat (map fst (delivered ?body)) @ s)
                  outWave default_sampleRate)"
        using e b(3) by simp
      moreover have "list_all is_production ?body" using b(4) by simp
      ultimately show ?thesis using b(1,2) o by blast
    next
      case notfull: False
      obtain oc2 st2 rest where
        r: "talk w (demo_sink w outWave) tr n (sofar @ [?t]) (buf @ [?t]) st = (oc2, st2, rest)"
        by (metis prod_cases3)
      from Suc.prems False notfull r
      have e: "evs = SpeechEmitted (length sofar) ?t # rest" and o: "oc = oc2" "st' = st2"
        by (auto simp: Let_def)
      from Suc.IH [OF r] obtain body s where
        b: "oc2 = Completed" "st2 = []"
           "rest = body @ Chunk s True True
              # map Effect (saveWaveToFile (save w) (st @ concat (map fst (delivered body)) @ s)
                  outWave default_sampleRate)"
           "list_all is_production body"
        by blast
      let ?body = "SpeechEmitted (length sofar) ?t # body"
      have "evs = ?body @ Chunk s True True
              # map Effect (saveWaveToFile (save w) (st @ concat (map fst (delivered ?body)) @ s)
                  outWave default_sampleRate)"
        using e b(3) by simp
      moreover have "list_all is_production ?body" using b(4) by simp
      ultimately show ?thesis using b(1,2) o by blast
    qed
  qed
qed

lemma split_at_last_chunk:
  assumes "body @ Chunk s t a # map Effect effs = pre @ Chunk s' t' False # post"
    and "list_all streaming body"
  shows "pre = body \<and> s' = s \<and> t' = t \<and> \<not> a \<and> post = map Effect effs"
  using assms
proof (induction body arbitrary: pre)
  case Nil
  show ?case
  proof (cases pre)
    case Nil
    with Nil.prems show ?thesis by simp
  next
    case (Cons p ps)
    with Nil.prems have "map Effect effs = ps @ Chunk s' t' False # post" by simp
    then have "Chunk s' t' False \<in> set (map Effect effs)" by simp
    then show ?thesis by auto
  qed
next
  case (Cons b body)
  show ?case
  proof (cases pre)
    case Nil
    with Cons.prems have "b = Chunk s' t' False" by simp
    with Cons.prems(2) show ?thesis by simp
  next
    case c: (Cons p ps)
    with Cons.prems have "body @ Chunk s t a # map Effect effs = ps @ Chunk s' t' False # post"
      and "p = b" and "list_all streaming body" by simp_all
    with Cons.IH [of ps] c show ?thesis by simp
  qed
qed

lemma streaming_flags:
  "list_all streaming body \<Longrightarrow>
     map (\<lambda>d. fst (snd d)) (delivered body) = replicate (length (delivered body)) False
   \<and> map (\<lambda>d. snd (snd d)) (delivered body) = replicate (length (delivered body)) True"
  by (induction body rule: delivered.induct) auto

lemma streaming_not_committed: "list_all streaming body \<Longrightarrow> filter is_TextCommitted body = []"
  by (induction body rule: delivered.induct) auto

lemma effects_of_append: "effects_of (xs @ ys) = effects_of xs @ effects_of ys"
  by (induction xs rule: effects_of.induct) auto

lemma effects_of_effects: "effects_of (map Effect es) = es"
  by (induction es) auto

lemma effects_of_production: "list_all is_production body \<Longrightarrow> effects_of body = []"
  by (induction body rule: effects_of.induct) auto

lemma generateWavform_talk:
  "generateWavform w sink llm st = (oc, llm', st', evs) \<Longrightarrow> oc \<noteq> Skipped \<Longrightarrow>
     talk w sink (trace llm) (nat (talker_max_new_tokens (config llm))) [] [] st = (oc, st', evs)"
  by (auto simp: generateWavform_def split: if_splits prod.splits)

lemma generateWavform_skipped:
  "generateWavform w sink llm st = (Skipped, llm', st', evs) \<Longrightarrow> evs = []"
  by (auto simp: generateWavform_def split: if_splits prod.splits dest: talk_shape)

lemma talk_always_true:
  assumes "talk w sink tr n sofar buf st = (oc, st', evs)" and "\<And>c l x. fst (sink c l x)"
  shows "oc = Completed \<and> list_all (\<lambda>d. snd (snd d)) (delivered evs)"
proof -
  from talk_shape [OF assms(1)] obtain body s t a effs x where
    b: "evs = body @ Chunk s t a # map Effect effs" "list_all streaming body"
       "oc = (if a then Completed else SuccessPartial)" "sink s t x = (a, st', effs)"
    by blast
  from assms(2) [of s t x] b(4) have a by simp
  have "map (\<lambda>d. snd (snd d)) (delivered body) = replicate (length (delivered body)) True"
    using streaming_flags [OF b(2)] by simp
  then have "list_all (\<lambda>d. snd (snd d)) (delivered body)"
    by (metis (mono_tags, lifting) in_set_replicate list.pred_set list_all_iff map_eq_conv set_map image_iff)
  then show ?thesis using b(1,3) \<open>a\<close> by (simp add: delivered_append delivered_effects)
qed

subsection \<open>Decoding and the session\<close>

lemma decode_complete:
  "(decode next stop budget tr \<noteq> [] \<and> last (decode next stop budget tr) = stop)
     \<or> length (decode next stop budget tr) = length tr + budget"
proof (induction budget arbitrary: tr)
  case 0
  show ?case by simp
next
  case (Suc budget)
  show ?case
  proof (cases "next tr = stop")
    case True
    then show ?thesis by (simp add: Let_def)
  next
    case False
    with Suc [of "tr @ [next tr]"] show ?thesis by (simp add: Let_def)
  qed
qed

lemma production_commits: "filter is_production (commits tr) = []"
  by (simp add: commits_def filter_empty_conv)

lemma talk_not_committed:
  "talk w sink tr n sofar buf st = (oc, st', evs) \<Longrightarrow> filter is_TextCommitted evs = []"
  by (auto dest!: talk_shape simp: streaming_not_committed committed_effects)

lemma generateWavform_not_committed:
  "generateWavform w sink llm st = (oc, llm', st', evs) \<Longrightarrow> filter is_TextCommitted evs = []"
  by (auto simp: generateWavform_def talk_not_committed split: if_splits prod.splits)

lemma print_stats_not_committed:
  "print_stats ctx = Some stats \<Longrightarrow> filter is_TextCommitted stats = []"
  by (auto simp: print_stats_def rtf_lines_def split: option.splits if_splits)

lemma demo_set_config:
  "set_config w llm [(''tmp_path'', JString ''tmp'')] = Inr (llm\<lparr>config := (config llm)\<lparr>tmp_path := ''tmp''\<rparr>\<rparr>)"
  "set_config w llm [(''async'', JBool False)] = Inr (llm\<lparr>config := (config llm)\<lparr>async := False\<rparr>\<rparr>)"
  by (simp_all add: set_config_def resolve_key_def)

lemma main_loaded:
  assumes "2 \<le> length args" and "createLLM w (args ! 0) = Some c" and "load w"
  shows "main w prog args =
     (case run_session w ((new_Llm c)\<lparr>config := c\<lparr>tmp_path := ''tmp'', async := False\<rparr>\<rparr>)
             (args ! 1) (parse_outWave (prog # args)) (parse_question (prog # args)) of
        (e, evs) \<Rightarrow> (e, demo_prelude (prog # args) @ evs))"
proof -
  have "args ! 1 = (prog # args) ! 2" by (simp add: eval_nat_numeral)
  then show ?thesis using assms
    by (simp add: main_def Let_def demo_set_config demo_prelude_def new_Llm_def split: prod.splits)
qed

lemma run_session_events:
  fixes w :: "'s world"
  assumes "\<not> async (config llm)"
  shows "\<exists>post. snd (run_session w llm audioPath outWave question) =
           [SetWavformCallback,
            Cout (Str ''\<newline>==== Prompt ====\<newline>''), Cout (Str (buildAudioPrompt audioPath question)),
            Cout (Str ''\<newline>================\<newline>''),
            GetContext, Response (buildAudioPrompt audioPath question)]
           @ commits (decode (next_token w (buildAudioPrompt audioPath question)) (eos w) (max_new_tokens w) [])
           @ GenerateWavform # post
         \<and> filter is_TextCommitted post = []"
proof -
  let ?p = "buildAudioPrompt audioPath question"
  let ?tr = "decode (next_token w ?p) (eos w) (max_new_tokens w) []"
  obtain llm1 where r: "response w llm ?p = (llm1, commits ?tr)"
    using assms by (simp add: response_def Let_def)
  obtain oc llm2 wf sp where g: "generateWavform w (demo_sink w outWave) llm1 [] = (oc, llm2, wf, sp)"
    by (metis prod_cases4)
  note nc = generateWavform_not_committed [OF g]
  show ?thesis
  proof (cases "print_stats (llm_context llm2) :: 's event list option")
    case None
    then show ?thesis using r g nc by (simp add: run_session_def Let_def)
  next
    case (Some stats)
    then show ?thesis using r g nc print_stats_not_committed [OF Some]
      by (simp add: run_session_def Let_def)
  qed
qed

section \<open>Properties\<close>

subsection \<open>saveWaveToFile on an empty waveform\<close>

text \<open>
  C8. Called with an empty waveform, \<open>saveWaveToFile\<close> only prints the skip message:
  it does not invoke \<open>AUDIO::save\<close> (so no file is written) and reports no error.
  For any waveform, \<open>AUDIO::save\<close> is among the effects exactly when the waveform is
  not empty, and then it is invoked once, on the tensor of that waveform.
\<close>

theorem saveWaveToFile_empty_skips:
  "saveWaveToFile save_ok [] outPath sampleRate = [MNN_PRINT ''No waveform data, skip save.\<newline>'']
   \<and> filter is_AUDIO_save (saveWaveToFile save_ok [] outPath sampleRate) = []
   \<and> filter is_MNN_ERROR (saveWaveToFile save_ok [] outPath sampleRate) = []
   \<and> filter is_AUDIO_save (saveWaveToFile save_ok waveform outPath sampleRate)
       = (if waveform = [] then [] else [AUDIO_save outPath (Const waveform) sampleRate])"
  by (simp add: saveWaveToFile_def Let_def)

theorem saveWaveToFile_empty_skips_witness:
  "filter is_AUDIO_save (saveWaveToFile (\<lambda>p v r. True) ([] :: nat list) ''output.wav'' 24000) = []
   \<and> filter is_AUDIO_save (saveWaveToFile (\<lambda>p v r. True) [1, 2 :: nat] ''output.wav'' 24000)
       = [AUDIO_save ''output.wav'' \<lparr>data = [1, 2], dim = 2\<rparr> 24000]"
  using saveWaveToFile_empty_skips [of "\<lambda>p v r. True" "''output.wav''" 24000 "[1, 2 :: nat]"]
  by (simp add: Const_def)

subsection \<open>Prompt building\<close>

text \<open>
  C2. For every audio reference and every instruction, \<open>buildAudioPrompt\<close> returns one
  prompt: the audio reference between the markers \<open><audio>\<close> and \<open></audio>\<close>,
  followed by the instruction, or by the fixed default instruction when the instruction
  is empty.
\<close>

theorem buildAudioPrompt_structure:
  "buildAudioPrompt audioPath userQuestion =
     ''<audio>'' @ audioPath @ ''</audio>''
       @ (if userQuestion = [] then default_question else userQuestion)"
  by (simp add: buildAudioPrompt_def put_def str_def)

theorem buildAudioPrompt_structure_witness:
  "buildAudioPrompt ''a.wav'' ''hi'' = ''<audio>a.wav</audio>hi''
   \<and> buildAudioPrompt ''a.wav'' [] = ''<audio>a.wav</audio>'' @ default_question"
  using buildAudioPrompt_structure [of "''a.wav''" "''hi''"]
    buildAudioPrompt_structure [of "''a.wav''" "[]"]
  by simp

text \<open>
  C1, as the claim states it, fails: with an empty audio reference and the instruction
  \<open>hi\<close>, prompt building returns the prompt \<open><audio></audio>hi\<close> and signals no
  error, and \<open>main\<close>, given an empty second argument, goes on to call \<open>response\<close>
  with that prompt.
\<close>

theorem PromptBuilder_empty_audio_counterexample:
  "PromptBuilder [] ''hi'' = Inr ''<audio></audio>hi''
   \<and> PromptBuilder [] ''hi'' \<noteq> Inl InvalidPromptError
   \<and> Response ''<audio></audio>hi''
       \<in> set (snd (main example_world ''demo'' [''config.json'', [], ''o.wav'', ''hi'']))"
proof -
  have "PromptBuilder [] ''hi'' = Inr ''<audio></audio>hi''"
    by (simp add: PromptBuilder_def buildAudioPrompt_def put_def str_def)
  moreover have "Response ''<audio></audio>hi''
       \<in> set (snd (main example_world ''demo'' [''config.json'', [], ''o.wav'', ''hi'']))"
    by code_simp
  ultimately show ?thesis by simp
qed

text \<open>
  C1, amended. Prompt building never fails: for every audio reference, the empty one
  included, and every instruction it returns the prompt of C2 and signals no error; with
  an empty audio reference the prompt is \<open><audio></audio>\<close> followed by the
  instruction (or the default instruction), and the session calls \<open>response\<close> with it.
\<close>

theorem PromptBuilder_never_fails:
  "PromptBuilder audio_reference instruction_text =
     Inr (''<audio>'' @ audio_reference @ ''</audio>''
            @ (if instruction_text = [] then default_question else instruction_text))
   \<and> Response (''<audio></audio>''
                 @ (if instruction_text = [] then default_question else instruction_text))
       \<in> set (snd (run_session w llm [] outWave instruction_text))"
  by (auto simp: PromptBuilder_def buildAudioPrompt_def put_def str_def run_session_def Let_def
           split: prod.splits option.splits)

theorem PromptBuilder_never_fails_witness:
  "PromptBuilder [] ''hi'' = Inr ''<audio></audio>hi''
   \<and> Response ''<audio></audio>hi''
       \<in> set (snd (run_session example_world example_llm [] ''o.wav'' ''hi''))"
  using PromptBuilder_never_fails [of "[]" "''hi''" example_world example_llm "''o.wav''"]
  by simp

subsection \<open>The waveform stream\<close>

text \<open>
  C3, as the claim states it, fails in its last part: when the Talker stops at once, the
  response is completed with one terminal chunk without samples, the callback calls
  \<open>saveWaveToFile\<close> on the empty vector, and that call only prints the skip message:
  \<open>AUDIO::save\<close> is not invoked and no file is saved for this response.
\<close>

theorem terminal_chunk_no_file_counterexample:
  "generateWavform silent_world (demo_sink silent_world ''o.wav'') example_llm []
     = (Completed,
        fst (snd (generateWavform silent_world (demo_sink silent_world ''o.wav'') example_llm [])),
        [],
        [Chunk [] True True, Effect (MNN_PRINT ''No waveform data, skip save.\<newline>'')])
   \<and> filter is_AUDIO_save
        (effects_of (snd (snd (snd
           (generateWavform silent_world (demo_sink silent_world ''o.wav'') example_llm [])))))
       = []"
proof -
  have "generateWavform silent_world (demo_sink silent_world ''o.wav'') example_llm []
     = (Completed,
        fst (snd (generateWavform silent_world (demo_sink silent_world ''o.wav'') example_llm [])),
        [],
        [Chunk [] True True, Effect (MNN_PRINT ''No waveform data, skip save.\<newline>'')])"
    by code_simp
  moreover have "filter is_AUDIO_save
        (effects_of (snd (snd (snd
           (generateWavform silent_world (demo_sink silent_world ''o.wav'') example_llm [])))))
       = []"
    by code_simp
  ultimately show ?thesis by simp
qed

text \<open>
  C3, amended. For every completed response of the engine (whatever the callback), the
  terminal flags of the delivered chunks are some number of \<open>False\<close> followed by one
  \<open>True\<close>: exactly one chunk is terminal, it is the last one delivered, and every
  earlier chunk is non-terminal. With the demo's callback, the events of a completed
  response are speech tokens and chunks only, up to the terminal chunk, which is followed
  by the effects of one call of \<open>saveWaveToFile\<close> on all delivered samples and by
  nothing else; the captured vector is empty afterwards. That one call, on the last
  delivered chunk, saves exactly one file (one \<open>AUDIO::save\<close> of the concatenation of
  all delivered samples to \<open>outWave\<close> at 24000 Hz, followed by the message of its
  result) when at least one sample was delivered, and only prints the skip message,
  saving no file, when every delivered chunk is empty.
\<close>

theorem terminal_chunk_exactly_once:
  fixes w :: "'s world"
  shows "(generateWavform w sink llm st = (Completed, llm1, st1, evs) \<longrightarrow>
            (\<exists>k. map (\<lambda>d. fst (snd d)) (delivered evs) = replicate k False @ [True]))
       \<and> (generateWavform w (demo_sink w outWave) llm [] = (Completed, llm2, waveform2, evs2) \<longrightarrow>
            (\<exists>body s. evs2 = body @ Chunk s True True
                 # map Effect (saveWaveToFile (save w) (concat (map fst (delivered evs2)))
                                outWave default_sampleRate)
               \<and> list_all is_production body)
            \<and> waveform2 = []
            \<and> effects_of evs2 =
                (if concat (map fst (delivered evs2)) = []
                 then [MNN_PRINT ''No waveform data, skip save.\<newline>'']
                 else AUDIO_save outWave (Const (concat (map fst (delivered evs2)))) 24000
                      # (if save w outWave (Const (concat (map fst (delivered evs2)))) 24000
                         then [MNN_PRINT (''Waveform saved to: '' @ outWave @ ''\<newline>'')]
                         else [MNN_ERROR (''Save wav to '' @ outWave @ '' failed.\<newline>'')]))
            \<and> filter is_AUDIO_save (effects_of evs2) =
                (if concat (map fst (delivered evs2)) = [] then []
                 else [AUDIO_save outWave (Const (concat (map fst (delivered evs2)))) 24000]))"
proof (intro conjI impI)
  assume g: "generateWavform w sink llm st = (Completed, llm1, st1, evs)"
  from talk_shape [OF generateWavform_talk [OF g]] obtain body s t a effs where
    b: "evs = body @ Chunk s t a # map Effect effs" "list_all streaming body"
       "t \<or> \<not> a" "Completed = (if a then Completed else SuccessPartial)"
    by auto
  from b(3,4) have t by (auto split: if_splits)
  then have "map (\<lambda>d. fst (snd d)) (delivered evs)
      = replicate (length (delivered body)) False @ [True]"
    using b(1) streaming_flags [OF b(2)] by (simp add: delivered_append delivered_effects)
  then show "\<exists>k. map (\<lambda>d. fst (snd d)) (delivered evs) = replicate k False @ [True]" ..
next
  assume g: "generateWavform w (demo_sink w outWave) llm [] = (Completed, llm2, waveform2, evs2)"
  from talk_demo [OF generateWavform_talk [OF g]] obtain body s where
    b: "waveform2 = []"
       "evs2 = body @ Chunk s True True
          # map Effect (saveWaveToFile (save w) ([] @ concat (map fst (delivered body)) @ s)
                         outWave default_sampleRate)"
       "list_all is_production body"
    by auto
  have "concat (map fst (delivered evs2)) = concat (map fst (delivered body)) @ s"
    by (subst b(2)) (simp add: delivered_append delivered_effects)
  with b show "\<exists>body s. evs2 = body @ Chunk s True True
                 # map Effect (saveWaveToFile (save w) (concat (map fst (delivered evs2)))
                                outWave default_sampleRate)
               \<and> list_all is_production body" by auto
  from b show "waveform2 = []" by simp
  have c: "concat (map fst (delivered evs2)) = concat (map fst (delivered body)) @ s"
    by (subst b(2)) (simp add: delivered_append delivered_effects)
  have e: "effects_of evs2
      = saveWaveToFile (save w) (concat (map fst (delivered evs2))) outWave default_sampleRate"
    unfolding c
    by (subst b(2)) (simp add: effects_of_append effects_of_effects effects_of_production [OF b(3)])
  show "effects_of evs2 =
                (if concat (map fst (delivered evs2)) = []
                 then [MNN_PRINT ''No waveform data, skip save.\<newline>'']
                 else AUDIO_save outWave (Const (concat (map fst (delivered evs2)))) 24000
                      # (if save w outWave (Const (concat (map fst (delivered evs2)))) 24000
                         then [MNN_PRINT (''Waveform saved to: '' @ outWave @ ''\<newline>'')]
                         else [MNN_ERROR (''Save wav to '' @ outWave @ '' failed.\<newline>'')]))"
    unfolding e by (simp add: saveWaveToFile_def default_sampleRate_def Let_def)
  show "filter is_AUDIO_save (effects_of evs2) =
                (if concat (map fst (delivered evs2)) = [] then []
                 else [AUDIO_save outWave (Const (concat (map fst (delivered evs2)))) 24000])"
    unfolding e by (simp add: saveWaveToFile_def default_sampleRate_def Let_def)
qed

theorem terminal_chunk_exactly_once_witness:
  "generateWavform example_world (demo_sink example_world ''o.wav'') example_llm []
     = (Completed,
        fst (snd (generateWavform example_world (demo_sink example_world ''o.wav'') example_llm [])),
        [],
        [SpeechEmitted 0 (Speech 1), SpeechEmitted 1 (Speech 2), Chunk [1, 2] False True,
         SpeechEmitted 2 (Speech 3), Chunk [3] True True,
         Effect (AUDIO_save ''o.wav'' \<lparr>data = [1, 2, 3], dim = 3\<rparr> 24000),
         Effect (MNN_PRINT ''Waveform saved to: o.wav\<newline>'')])
   \<and> (\<exists>k. map (\<lambda>d. fst (snd d))
            (delivered [SpeechEmitted 0 (Speech 1), SpeechEmitted 1 (Speech 2),
               Chunk [1, 2 :: nat] False True, SpeechEmitted 2 (Speech 3), Chunk [3] True True,
               Effect (AUDIO_save ''o.wav'' \<lparr>data = [1, 2, 3], dim = 3\<rparr> 24000),
               Effect (MNN_PRINT ''Waveform saved to: o.wav\<newline>'')])
          = replicate k False @ [True])"
proof -
  let ?E = "[SpeechEmitted 0 (Speech 1), SpeechEmitted 1 (Speech 2), Chunk [1, 2 :: nat] False True,
         SpeechEmitted 2 (Speech 3), Chunk [3] True True,
         Effect (AUDIO_save ''o.wav'' \<lparr>data = [1, 2, 3], dim = 3\<rparr> 24000),
         Effect (MNN_PRINT ''Waveform saved to: o.wav\<newline>'')]"
  have g: "generateWavform example_world (demo_sink example_world ''o.wav'') example_llm []
     = (Completed,
        fst (snd (generateWavform example_world (demo_sink example_world ''o.wav'') example_llm [])),
        [], ?E)"
    by code_simp
  from terminal_chunk_exactly_once [of example_world "demo_sink example_world ''o.wav''"
      example_llm "[]" _ "[]" ?E] g
  have "\<exists>k. map (\<lambda>d. fst (snd d)) (delivered ?E) = replicate k False @ [True]"
    by blast
  with g show ?thesis by blast
qed

text \<open>
  C5. If the callback answers false on a chunk, the response ends as success with
  partial output (not as an error), and after that chunk no chunk is delivered and no
  speech token or chunk is produced. If the callback answers true on every call, the
  response does not end as cancelled and every delivered chunk was answered with true.
  The demo's callback answers true on every call, so \<open>generateWavform\<close> with it never
  ends as cancelled.
\<close>

theorem cancel_stops_stream:
  fixes w :: "'s world"
  shows "(generateWavform w sink llm st = (oc, llm1, st1, pre @ Chunk s t False # post) \<longrightarrow>
            oc = SuccessPartial \<and> delivered post = [] \<and> filter is_production post = [])
       \<and> ((\<forall>c l x. fst (sink c l x)) \<and> generateWavform w sink llm st = (oc, llm1, st1, evs) \<longrightarrow>
            oc \<noteq> SuccessPartial \<and> list_all (\<lambda>d. snd (snd d)) (delivered evs))
       \<and> fst (demo_sink w outWave chunk last_chunk waveform)
       \<and> fst (generateWavform w (demo_sink w outWave) llm waveform) \<noteq> SuccessPartial"
proof (intro conjI impI)
  assume g: "generateWavform w sink llm st = (oc, llm1, st1, pre @ Chunk s t False # post)"
  then have ns: "oc \<noteq> Skipped" using generateWavform_skipped [of w sink llm st llm1 st1] by auto
  from talk_shape [OF generateWavform_talk [OF g ns]] obtain body s' t' a effs where
    b: "pre @ Chunk s t False # post = body @ Chunk s' t' a # map Effect effs"
       "list_all streaming body" "oc = (if a then Completed else SuccessPartial)"
    by auto
  from split_at_last_chunk [OF b(1) [symmetric] b(2)]
  have "\<not> a" "post = map Effect effs" by auto
  with b(3) show "oc = SuccessPartial" "delivered post = []" "filter is_production post = []"
    by (simp_all add: delivered_effects production_effects)
next
  assume a: "(\<forall>c l x. fst (sink c l x)) \<and> generateWavform w sink llm st = (oc, llm1, st1, evs)"
  show "oc \<noteq> SuccessPartial"
  proof (cases "oc = Skipped")
    case True then show ?thesis by simp
  next
    case False
    from talk_always_true [OF generateWavform_talk [of w sink llm st oc llm1 st1 evs]] a False
    show ?thesis by simp
  qed
  show "list_all (\<lambda>d. snd (snd d)) (delivered evs)"
  proof (cases "oc = Skipped")
    case True then show ?thesis using a generateWavform_skipped [of w sink llm st llm1 st1 evs] by simp
  next
    case False
    from talk_always_true [OF generateWavform_talk [of w sink llm st oc llm1 st1 evs]] a False
    show ?thesis by simp
  qed
next
  show "fst (demo_sink w outWave chunk last_chunk waveform)"
    by (simp add: demo_sink_def wavformCallback_def Let_def)
next
  show "fst (generateWavform w (demo_sink w outWave) llm waveform) \<noteq> SuccessPartial"
    by (auto simp: generateWavform_def split: prod.splits dest: talk_demo)
qed

theorem cancel_stops_stream_witness:
  "generateWavform example_world (\<lambda>c l x. (False, x, [])) example_llm ()
     = (SuccessPartial,
        fst (snd (generateWavform example_world (\<lambda>c l x. (False, x, [])) example_llm ())),
        (),
        [SpeechEmitted 0 (Speech 1), SpeechEmitted 1 (Speech 2)] @ Chunk [1, 2] False False # [])
   \<and> filter is_production ([] :: nat event list) = []
   \<and> fst (generateWavform example_world (\<lambda>c l x. (True, x, [])) example_llm ()) \<noteq> SuccessPartial"
proof -
  let ?no = "\<lambda>(c :: nat list) (l :: bool) (x :: unit). (False, x, [] :: nat effect list)"
  let ?yes = "\<lambda>(c :: nat list) (l :: bool) (x :: unit). (True, x, [] :: nat effect list)"
  have g: "generateWavform example_world ?no example_llm ()
     = (SuccessPartial, fst (snd (generateWavform example_world ?no example_llm ())), (),
        [SpeechEmitted 0 (Speech 1), SpeechEmitted 1 (Speech 2)] @ Chunk [1, 2] False False # [])"
    by code_simp
  have y: "\<forall>c l x. fst (?yes c l x)" by simp
  obtain oc l1 s1 evs where h: "generateWavform example_world ?yes example_llm () = (oc, l1, s1, evs)"
    by (metis prod_cases4)
  from cancel_stops_stream [of example_world ?no example_llm "()" SuccessPartial _ "()"
      "[SpeechEmitted 0 (Speech 1), SpeechEmitted 1 (Speech 2)]" "[1, 2]" False "[]"] g
  have 1: "filter is_production ([] :: nat event list) = []" by blast
  from cancel_stops_stream [of example_world ?yes example_llm "()" oc l1 s1] y h
  have 2: "oc \<noteq> SuccessPartial" by blast
  from g 1 2 h show ?thesis by simp
qed

subsection \<open>Text before speech\<close>

text \<open>
  C4. With \<open>async\<close> false, when \<open>response\<close> returns the decoder is \<open>Stopped\<close> and
  the generation trace is the complete result of the decoding loop (it ends with the
  end-of-sequence marker or has the maximal length), all of it committed during the call.
  In the demo, which sets \<open>async\<close> to false before loading, whenever the engine was
  created and loaded the events of \<open>main\<close> are: a part without any speech token or
  chunk, containing that \<open>set_config\<close>; the commits of the complete trace; the call of
  \<open>generateWavform\<close>; and a rest in which no text token is committed. So every speech
  token is emitted after every text token is in the trace.
\<close>

theorem text_complete_before_speech:
  fixes w :: "'s world"
  shows "(\<not> async (config llm) \<longrightarrow>
            decoder (fst (response w llm prompt)) = Stopped
          \<and> trace (fst (response w llm prompt))
              = decode (next_token w prompt) (eos w) (max_new_tokens w) []
          \<and> snd (response w llm prompt)
              = (commits (trace (fst (response w llm prompt))) :: 's event list)
          \<and> ((trace (fst (response w llm prompt)) \<noteq> []
                \<and> last (trace (fst (response w llm prompt))) = eos w)
              \<or> length (trace (fst (response w llm prompt))) = max_new_tokens w))
       \<and> (2 \<le> length args \<and> createLLM w (args ! 0) = Some c \<and> load w \<longrightarrow>
            (\<exists>pre tr post.
                snd (main w prog args) = pre @ commits tr @ GenerateWavform # post
              \<and> SetConfig [(''async'', JBool False)] \<in> set pre
              \<and> tr = decode (next_token w (buildAudioPrompt (args ! 1) (parse_question (prog # args))))
                         (eos w) (max_new_tokens w) []
              \<and> filter is_production pre = []
              \<and> filter is_TextCommitted post = []))"
proof (intro conjI impI)
  assume a: "\<not> async (config llm)"
  let ?tr = "decode (next_token w prompt) (eos w) (max_new_tokens w) []"
  show "decoder (fst (response w llm prompt)) = Stopped"
    using a by (simp add: response_def Let_def)
  show t: "trace (fst (response w llm prompt)) = ?tr"
    using a by (simp add: response_def Let_def)
  show "snd (response w llm prompt)
          = (commits (trace (fst (response w llm prompt))) :: 's event list)"
    using a by (simp add: response_def Let_def)
  show "(trace (fst (response w llm prompt)) \<noteq> []
           \<and> last (trace (fst (response w llm prompt))) = eos w)
        \<or> length (trace (fst (response w llm prompt))) = max_new_tokens w"
    unfolding t using decode_complete [of "next_token w prompt" "eos w" "max_new_tokens w" "[]"]
    by simp
next
  assume h: "2 \<le> length args \<and> createLLM w (args ! 0) = Some c \<and> load w"
  let ?llm = "(new_Llm c)\<lparr>config := c\<lparr>tmp_path := ''tmp'', async := False\<rparr>\<rparr>"
  let ?q = "parse_question (prog # args)"
  let ?p = "buildAudioPrompt (args ! 1) ?q"
  let ?tr = "decode (next_token w ?p) (eos w) (max_new_tokens w) []"
  let ?before = "[SetWavformCallback,
            Cout (Str ''\<newline>==== Prompt ====\<newline>''), Cout (Str ?p),
            Cout (Str ''\<newline>================\<newline>''),
            GetContext, Response ?p] :: 's event list"
  have "\<not> async (config ?llm)" by simp
  from run_session_events [OF this, of w "args ! 1" "parse_outWave (prog # args)" ?q]
  obtain post where
    r: "snd (run_session w ?llm (args ! 1) (parse_outWave (prog # args)) ?q)
          = ?before @ commits ?tr @ GenerateWavform # post"
    and p: "filter is_TextCommitted post = []"
    by blast
  from h have m: "snd (main w prog args)
      = (demo_prelude (prog # args) @ ?before) @ commits ?tr @ GenerateWavform # post"
    using main_loaded [of args w c prog] r by (simp add: split_beta)
  have "SetConfig [(''async'', JBool False)] \<in> set (demo_prelude (prog # args) @ ?before)"
    by (simp add: demo_prelude_def)
  moreover have "filter is_production (demo_prelude (prog # args) @ ?before) = []"
    by (simp add: demo_prelude_def)
  ultimately show "\<exists>pre tr post.
                snd (main w prog args) = pre @ commits tr @ GenerateWavform # post
              \<and> SetConfig [(''async'', JBool False)] \<in> set pre
              \<and> tr = decode (next_token w (buildAudioPrompt (args ! 1) (parse_question (prog # args))))
                         (eos w) (max_new_tokens w) []
              \<and> filter is_production pre = []
              \<and> filter is_TextCommitted post = []"
    using m p by blast
qed

theorem text_complete_before_speech_witness:
  "trace (fst (response example_world (new_Llm (example_config\<lparr>async := False\<rparr>)) ''<audio>a.wav</audio>hi''))
     = [Text 10, Text 11, Text 0]
   \<and> (\<exists>pre post.
         snd (main example_world ''demo'' [''config.json'', ''a.wav'', ''o.wav'', ''hi''])
           = pre @ commits [Text 10, Text 11, Text 0] @ GenerateWavform # post
       \<and> filter is_production pre = []
       \<and> filter is_TextCommitted post = [])"
proof -
  let ?args = "[''config.json'', ''a.wav'', ''o.wav'', ''hi'']"
  let ?llm = "new_Llm (example_config\<lparr>async := False\<rparr>)"
  note t = text_complete_before_speech [of ?llm example_world "''<audio>a.wav</audio>hi''"
      ?args example_config "''demo''"]
  have a: "\<not> async (config ?llm)" by (simp add: new_Llm_def)
  have d1: "decode (next_token example_world ''<audio>a.wav</audio>hi'') (eos example_world)
              (max_new_tokens example_world) [] = [Text 10, Text 11, Text 0]"
    by code_simp
  have h: "2 \<le> length ?args \<and> createLLM example_world (?args ! 0) = Some example_config
             \<and> load example_world"
    by (simp add: example_world_def)
  have d2: "decode (next_token example_world
                (buildAudioPrompt (?args ! 1) (parse_question (''demo'' # ?args))))
              (eos example_world) (max_new_tokens example_world) [] = [Text 10, Text 11, Text 0]"
    by code_simp
  from t a d1 have 1: "trace (fst (response example_world ?llm ''<audio>a.wav</audio>hi''))
     = [Text 10, Text 11, Text 0]" by simp
  from t h obtain pre tr post where
    "snd (main example_world ''demo'' ?args) = pre @ commits tr @ GenerateWavform # post"
    "tr = decode (next_token example_world
                (buildAudioPrompt (?args ! 1) (parse_question (''demo'' # ?args))))
              (eos example_world) (max_new_tokens example_world) []"
    "filter is_production pre = []" "filter is_TextCommitted post = []"
    by blast
  with d2 have "\<exists>pre post.
         snd (main example_world ''demo'' ?args)
           = pre @ commits [Text 10, Text 11, Text 0] @ GenerateWavform # post
       \<and> filter is_production pre = []
       \<and> filter is_TextCommitted post = []" by auto
  with 1 show ?thesis by blast
qed

subsection \<open>The real-time factor\<close>

text \<open>
  C6. Printing the statistics never divides by zero (the computation always returns
  \<open>Some\<close>). The line of the real-time factor is printed exactly when the audio input
  duration is strictly positive, and its number is the processing time in seconds
  divided by the input duration, computed from the two counters of the context; the
  context itself is only read (the statistics are a function of it, and it has no field
  for the factor).
\<close>

theorem rtf_guarded_division:
  "(\<exists>evs. (print_stats context :: 's event list option) = Some evs)
   \<and> (rtf_lines context :: 's event list option) =
       (if audio_input_s context > 0
        then Some [Cout (Str ''Audio RTF     : ''),
                   Cout (RealV (real_of_int (audio_us context) / 1000000 / audio_input_s context)),
                   Cout (Str ''\<newline>'')]
        else Some [])
   \<and> (fdiv (real_of_int (audio_us context) / 1000000) (audio_input_s context) = None
        \<longleftrightarrow> audio_input_s context = 0)"
  by (simp add: print_stats_def rtf_lines_def fdiv_def)

theorem rtf_guarded_division_witness:
  "(rtf_lines \<lparr>prompt_len = 27, gen_seq_len = 3, audio_input_s = 5, audio_us = 2000000\<rparr>
      :: nat event list option)
     = Some [Cout (Str ''Audio RTF     : ''), Cout (RealV (2 / 5)), Cout (Str ''\<newline>'')]
   \<and> (rtf_lines \<lparr>prompt_len = 27, gen_seq_len = 3, audio_input_s = 0, audio_us = 2000000\<rparr>
      :: nat event list option) = Some []"
  using rtf_guarded_division
      [of "\<lparr>prompt_len = 27, gen_seq_len = 3, audio_input_s = 5, audio_us = 2000000\<rparr>",
       where ?'s = nat]
    rtf_guarded_division
      [of "\<lparr>prompt_len = 27, gen_seq_len = 3, audio_input_s = 0, audio_us = 2000000\<rparr>",
       where ?'s = nat]
  by simp

subsection \<open>The accumulator of the callback\<close>

text \<open>
  C9. Let the callback receive, from an empty vector, the deliveries \<open>pre\<close> (none, or
  ending with a terminal chunk), then the non-terminal chunks \<open>mid\<close>, then a terminal
  chunk. The calls for \<open>mid\<close> have no effect, and the call for the terminal chunk
  passes to \<open>saveWaveToFile\<close> exactly the samples of \<open>mid\<close> and of the terminal
  chunk, concatenated in the order of delivery: nothing of \<open>pre\<close> is in it. The vector
  is empty afterwards.
\<close>

theorem callback_saves_concatenation:
  assumes "\<forall>d\<in>set mid. \<not> snd d" and "pre = [] \<or> snd (last pre)"
  shows "callbacks save_ok outWave [] (pre @ mid @ [(chunk, True)])
        = (fst (callbacks save_ok outWave [] pre) @ replicate (length mid) []
             @ [saveWaveToFile save_ok (concat (map fst mid) @ chunk) outWave default_sampleRate], [])"
proof -
  obtain e1 w1 where p: "callbacks save_ok outWave [] pre = (e1, w1)" by force
  have "w1 = []" using callbacks_after_terminal [OF assms(2), of save_ok outWave] p by simp
  then show ?thesis
    using p callbacks_nonterminal [OF assms(1), of save_ok outWave "[]"]
    by (simp add: callbacks_append wavformCallback_def)
qed

theorem callback_saves_concatenation_witness:
  "callbacks (\<lambda>p v r. True) ''o.wav'' []
     ([([1, 2], False), ([3], True)] @ [([4], False), ([5, 6], False)] @ [([7 :: nat], True)])
   = ([[], saveWaveToFile (\<lambda>p v r. True) [1, 2, 3] ''o.wav'' default_sampleRate, [], [],
       saveWaveToFile (\<lambda>p v r. True) [4, 5, 6, 7] ''o.wav'' default_sampleRate], [])"
proof -
  have "\<forall>d\<in>set [([4 :: nat], False), ([5, 6], False)]. \<not> snd d" by simp
  moreover have "[([1, 2 :: nat], False), ([3], True)] = []
      \<or> snd (last [([1, 2 :: nat], False), ([3], True)])" by simp
  ultimately have "callbacks (\<lambda>p v r. True) ''o.wav'' []
     ([([1, 2], False), ([3], True)] @ [([4], False), ([5, 6], False)] @ [([7 :: nat], True)])
   = (fst (callbacks (\<lambda>p v r. True) ''o.wav'' [] [([1, 2], False), ([3], True)])
        @ replicate (length [([4 :: nat], False), ([5, 6], False)]) []
        @ [saveWaveToFile (\<lambda>p v r. True)
             (concat (map fst [([4 :: nat], False), ([5, 6], False)]) @ [7])
             ''o.wav'' default_sampleRate], [])"
    by (rule callback_saves_concatenation)
  then show ?thesis by (simp add: wavformCallback_def)
qed

subsection \<open>Configuration\<close>

text \<open>
  C7. Resolving a configuration object against the settings it has produced changes
  nothing (idempotence), and whether it is an error does not depend on the settings it
  is resolved against. Members with unknown keys are ignored wherever they stand: the
  object without them resolves to the same result. Later members override earlier ones
  wherever they stand: after a successful resolution every setting has the value of the
  last member with its key, and the value it had before when there is no such member.
  In the demo, the two \<open>set_config\<close> calls succeed, and each of them applied again
  leaves the engine as it is.
\<close>

theorem config_resolution_idempotent:
  "(resolve sp c kvs = Inr c' \<longrightarrow> resolve sp c' kvs = Inr c')
   \<and> (resolve sp c kvs = Inl e \<longrightarrow> resolve sp c2 kvs = Inl e)
   \<and> (k \<notin> set [''tmp_path'', ''async'', ''talker_max_new_tokens'', ''talker_speaker'']
        \<longrightarrow> resolve sp c (kvs @ [(k, v)]) = resolve sp c kvs)
   \<and> (resolve sp c (kvs @ [(''tmp_path'', JString s)]) = Inr c' \<longrightarrow> tmp_path c' = s)
   \<and> (resolve sp c (kvs @ [(''async'', JBool b)]) = Inr c' \<longrightarrow> async c' = b)
   \<and> (resolve sp c (kvs @ [(''talker_max_new_tokens'', JInt n)]) = Inr c'
        \<longrightarrow> talker_max_new_tokens c' = n)
   \<and> (resolve sp c (kvs @ [(''talker_speaker'', JString s)]) = Inr c' \<longrightarrow> talker_speaker c' = s)
   \<and> (\<exists>llm1 llm2.
          set_config w llm [(''tmp_path'', JString ''tmp'')] = Inr llm1
        \<and> set_config w llm1 [(''async'', JBool False)] = Inr llm2
        \<and> set_config w llm2 [(''tmp_path'', JString ''tmp'')] = Inr llm2
        \<and> set_config w llm2 [(''async'', JBool False)] = Inr llm2)
   \<and> resolve sp c (filter (\<lambda>kv. fst kv \<in> set known_keys) kvs) = resolve sp c kvs
   \<and> (resolve sp c kvs = Inr c' \<longrightarrow>
          tmp_path c' = (case map_of (rev kvs) ''tmp_path'' of
                           Some (JString s) \<Rightarrow> s | _ \<Rightarrow> tmp_path c)
        \<and> async c' = (case map_of (rev kvs) ''async'' of
                        Some (JBool b) \<Rightarrow> b | _ \<Rightarrow> async c)
        \<and> talker_max_new_tokens c' =
            (case map_of (rev kvs) ''talker_max_new_tokens'' of
               Some (JInt n) \<Rightarrow> n | _ \<Rightarrow> talker_max_new_tokens c)
        \<and> talker_speaker c' =
            (case map_of (rev kvs) ''talker_speaker'' of
               Some (JString s) \<Rightarrow> s | _ \<Rightarrow> talker_speaker c))"
proof -
  have unknown: "k \<notin> set [''tmp_path'', ''async'', ''talker_max_new_tokens'', ''talker_speaker'']
        \<Longrightarrow> resolve sp c (kvs @ [(k, v)]) = resolve sp c kvs" for c
    by (auto simp: resolve_append resolve_key_def split: sum.splits)
  have "set_config w llm [(''tmp_path'', JString ''tmp'')]
          = Inr (llm\<lparr>config := (config llm)\<lparr>tmp_path := ''tmp''\<rparr>\<rparr>)"
    by (rule demo_set_config)
  moreover have "set_config w (llm\<lparr>config := (config llm)\<lparr>tmp_path := ''tmp''\<rparr>\<rparr>)
            [(''async'', JBool False)]
          = Inr (llm\<lparr>config := (config llm)\<lparr>tmp_path := ''tmp'', async := False\<rparr>\<rparr>)"
    by (simp add: demo_set_config)
  moreover have "set_config w (llm\<lparr>config := (config llm)\<lparr>tmp_path := ''tmp'', async := False\<rparr>\<rparr>)
            [(''tmp_path'', JString ''tmp'')]
          = Inr (llm\<lparr>config := (config llm)\<lparr>tmp_path := ''tmp'', async := False\<rparr>\<rparr>)"
    by (simp add: demo_set_config)
  moreover have "set_config w (llm\<lparr>config := (config llm)\<lparr>tmp_path := ''tmp'', async := False\<rparr>\<rparr>)
            [(''async'', JBool False)]
          = Inr (llm\<lparr>config := (config llm)\<lparr>tmp_path := ''tmp'', async := False\<rparr>\<rparr>)"
    by (simp add: demo_set_config)
  ultimately have demo: "\<exists>llm1 llm2.
          set_config w llm [(''tmp_path'', JString ''tmp'')] = Inr llm1
        \<and> set_config w llm1 [(''async'', JBool False)] = Inr llm2
        \<and> set_config w llm2 [(''tmp_path'', JString ''tmp'')] = Inr llm2
        \<and> set_config w llm2 [(''async'', JBool False)] = Inr llm2"
    by blast
  have over: "resolve sp c (kvs @ [(''tmp_path'', JString s)]) = Inr c' \<longrightarrow> tmp_path c' = s"
    "resolve sp c (kvs @ [(''async'', JBool b)]) = Inr c' \<longrightarrow> async c' = b"
    "resolve sp c (kvs @ [(''talker_max_new_tokens'', JInt n)]) = Inr c'
        \<longrightarrow> talker_max_new_tokens c' = n"
    "resolve sp c (kvs @ [(''talker_speaker'', JString s)]) = Inr c' \<longrightarrow> talker_speaker c' = s"
    by (auto simp: resolve_append resolve_key_def split: sum.splits if_splits)
  have first: "(resolve sp c kvs = Inr c' \<longrightarrow> resolve sp c' kvs = Inr c')
   \<and> (resolve sp c kvs = Inl e \<longrightarrow> resolve sp c2 kvs = Inl e)"
    using resolve_idem [of sp c kvs c'] resolve_error_free [of sp c kvs e c2] by blast
  note filtered = resolve_unknown_filtered [of sp c kvs]
  have last_wins: "resolve sp c kvs = Inr c' \<longrightarrow>
          tmp_path c' = (case map_of (rev kvs) ''tmp_path'' of
                           Some (JString s) \<Rightarrow> s | _ \<Rightarrow> tmp_path c)
        \<and> async c' = (case map_of (rev kvs) ''async'' of
                        Some (JBool b) \<Rightarrow> b | _ \<Rightarrow> async c)
        \<and> talker_max_new_tokens c' =
            (case map_of (rev kvs) ''talker_max_new_tokens'' of
               Some (JInt n) \<Rightarrow> n | _ \<Rightarrow> talker_max_new_tokens c)
        \<and> talker_speaker c' =
            (case map_of (rev kvs) ''talker_speaker'' of
               Some (JString s) \<Rightarrow> s | _ \<Rightarrow> talker_speaker c)"
    using resolve_last_wins [of sp c kvs c'] by blast
  from first unknown over demo filtered last_wins show ?thesis
    by (intro conjI) (blast | assumption)+
qed

theorem config_resolution_idempotent_witness:
  "resolve [''Chelsie'', ''Ethan''] example_config
      [(''async'', JBool True), (''volume'', JInt 3), (''async'', JBool False)]
     = Inr (example_config\<lparr>async := False\<rparr>)
   \<and> resolve [''Chelsie'', ''Ethan''] (example_config\<lparr>async := False\<rparr>)
      [(''async'', JBool True), (''volume'', JInt 3), (''async'', JBool False)]
     = Inr (example_config\<lparr>async := False\<rparr>)
   \<and> resolve [''Chelsie'', ''Ethan''] example_config [(''talker_speaker'', JString ''Nobody'')]
     = Inl InvalidConfigError
   \<and> resolve [''Chelsie'', ''Ethan''] (example_config\<lparr>async := False\<rparr>)
        [(''talker_speaker'', JString ''Nobody'')]
     = Inl InvalidConfigError"
proof -
  let ?kvs = "[(''async'', JBool True), (''volume'', JInt 3), (''async'', JBool False)]"
  have 1: "resolve [''Chelsie'', ''Ethan''] example_config ?kvs
     = Inr (example_config\<lparr>async := False\<rparr>)"
    by (simp add: resolve_key_def)
  have 2: "resolve [''Chelsie'', ''Ethan''] example_config [(''talker_speaker'', JString ''Nobody'')]
     = Inl InvalidConfigError"
    by (simp add: resolve_key_def)
  from config_resolution_idempotent
    [of "[''Chelsie'', ''Ethan'']" example_config ?kvs "example_config\<lparr>async := False\<rparr>"] 1
  have 3: "resolve [''Chelsie'', ''Ethan''] (example_config\<lparr>async := False\<rparr>) ?kvs
     = Inr (example_config\<lparr>async := False\<rparr>)"
    by blast
  from config_resolution_idempotent
    [of "[''Chelsie'', ''Ethan'']" example_config "[(''talker_speaker'', JString ''Nobody'')]" _
        InvalidConfigError "example_config\<lparr>async := False\<rparr>"] 2
  have 4: "resolve [''Chelsie'', ''Ethan''] (example_config\<lparr>async := False\<rparr>)
        [(''talker_speaker'', JString ''Nobody'')]
     = Inl InvalidConfigError"
    by blast
  from 1 2 3 4 show ?thesis by blast
qed

subsection \<open>The command line\<close>

text \<open>
  C10. With fewer than two positional arguments (\<open>argc < 3\<close>) \<open>main\<close> returns 0 and
  all it does is print the usage text to \<open>std::cout\<close>, piece by piece as written out
  in the statement (the heading, the synopsis with the program name, and the example
  with the program name): no executor is created, no engine is created or loaded, and
  nothing is saved. With four or more positional
  arguments the question is \<open>argv[4]\<close> to \<open>argv[argc - 1]\<close> joined with single
  spaces, and it is the instruction of the prompt given to \<open>response\<close> whenever the
  engine was created and loaded.
\<close>

theorem main_usage_and_question:
  fixes w :: "'s world"
  shows "(length args < 2 \<longrightarrow>
            main w prog args =
              (Return 0,
               [Cout (Str ''Usage:\<newline>''),
                Cout (Str ''  ''), Cout (Str prog),
                Cout (Str '' <config.json> <audio.wav> [output.wav] [question]\<newline>\<newline>''),
                Cout (Str [CHR 0xE7, CHR 0xA4, CHR 0xBA, CHR 0xE4, CHR 0xBE, CHR 0x8B, CHR 0xEF, CHR 0xBC,
                           CHR 0x9A, CHR 0x0A]),
                Cout (Str ''  ''), Cout (Str prog),
                Cout (Str ('' D:/Project/models/qwen2.5/config.json D:/audio/input.wav output.wav ''
                   @ [CHR 0x22,
                      CHR 0xE8, CHR 0xAF, CHR 0xB7, CHR 0xE6, CHR 0x8A, CHR 0x8A, CHR 0xE5, CHR 0x86, CHR 0x85,
                      CHR 0xE5, CHR 0xAE, CHR 0xB9, CHR 0xE7, CHR 0xBF, CHR 0xBB, CHR 0xE8, CHR 0xAF, CHR 0x91,
                      CHR 0xE6, CHR 0x88, CHR 0x90, CHR 0xE4, CHR 0xB8, CHR 0xAD, CHR 0xE6, CHR 0x96, CHR 0x87,
                      CHR 0xE5, CHR 0xB9, CHR 0xB6, CHR 0xE7, CHR 0xAE, CHR 0x80, CHR 0xE8, CHR 0xA6, CHR 0x81,
                      CHR 0xE6, CHR 0xA6, CHR 0x82, CHR 0xE6, CHR 0x8B, CHR 0xAC,
                      CHR 0x22, CHR 0x0A]))])
          \<and> list_all is_Cout (snd (main w prog args)))
       \<and> (4 \<le> length args \<longrightarrow> parse_question (prog # args) = space_joined (drop 3 args))
       \<and> (4 \<le> length args \<and> createLLM w (args ! 0) = Some c \<and> load w \<longrightarrow>
            Response (buildAudioPrompt (args ! 1) (space_joined (drop 3 args)))
              \<in> set (snd (main w prog args)))"
proof (intro conjI impI)
  assume a: "length args < 2"
  then show "main w prog args =
              (Return 0,
               [Cout (Str ''Usage:\<newline>''),
                Cout (Str ''  ''), Cout (Str prog),
                Cout (Str '' <config.json> <audio.wav> [output.wav] [question]\<newline>\<newline>''),
                Cout (Str [CHR 0xE7, CHR 0xA4, CHR 0xBA, CHR 0xE4, CHR 0xBE, CHR 0x8B, CHR 0xEF, CHR 0xBC,
                           CHR 0x9A, CHR 0x0A]),
                Cout (Str ''  ''), Cout (Str prog),
                Cout (Str ('' D:/Project/models/qwen2.5/config.json D:/audio/input.wav output.wav ''
                   @ [CHR 0x22,
                      CHR 0xE8, CHR 0xAF, CHR 0xB7, CHR 0xE6, CHR 0x8A, CHR 0x8A, CHR 0xE5, CHR 0x86, CHR 0x85,
                      CHR 0xE5, CHR 0xAE, CHR 0xB9, CHR 0xE7, CHR 0xBF, CHR 0xBB, CHR 0xE8, CHR 0xAF, CHR 0x91,
                      CHR 0xE6, CHR 0x88, CHR 0x90, CHR 0xE4, CHR 0xB8, CHR 0xAD, CHR 0xE6, CHR 0x96, CHR 0x87,
                      CHR 0xE5, CHR 0xB9, CHR 0xB6, CHR 0xE7, CHR 0xAE, CHR 0x80, CHR 0xE8, CHR 0xA6, CHR 0x81,
                      CHR 0xE6, CHR 0xA6, CHR 0x82, CHR 0xE6, CHR 0x8B, CHR 0xAC,
                      CHR 0x22, CHR 0x0A]))])"
    by (simp add: main_def Let_def usage_def usage_example_heading_def
          usage_example_question_def)
  from a show "list_all is_Cout (snd (main w prog args))"
    by (simp add: main_def Let_def usage_def)
next
  assume "4 \<le> length args"
  then show "parse_question (prog # args) = space_joined (drop 3 args)"
    using parse_question_joined [of "prog # args"] by simp
next
  assume h: "4 \<le> length args \<and> createLLM w (args ! 0) = Some c \<and> load w"
  then have q: "parse_question (prog # args) = space_joined (drop 3 args)"
    using parse_question_joined [of "prog # args"] by simp
  from h have "2 \<le> length args" by simp
  from main_loaded [OF this, of w c prog] h
  show "Response (buildAudioPrompt (args ! 1) (space_joined (drop 3 args)))
          \<in> set (snd (main w prog args))"
    by (auto simp: q run_session_def Let_def split: prod.splits option.splits)
qed

theorem main_usage_and_question_witness:
  "main example_world ''demo'' [''config.json''] =
     (Return 0,
       [Cout (Str ''Usage:\<newline>''),
        Cout (Str ''  ''), Cout (Str ''demo''),
        Cout (Str '' <config.json> <audio.wav> [output.wav] [question]\<newline>\<newline>''),
        Cout (Str [CHR 0xE7, CHR 0xA4, CHR 0xBA, CHR 0xE4, CHR 0xBE, CHR 0x8B, CHR 0xEF, CHR 0xBC,
                   CHR 0x9A, CHR 0x0A]),
        Cout (Str ''  ''), Cout (Str ''demo''),
        Cout (Str ('' D:/Project/models/qwen2.5/config.json D:/audio/input.wav output.wav ''
           @ [CHR 0x22,
              CHR 0xE8, CHR 0xAF, CHR 0xB7, CHR 0xE6, CHR 0x8A, CHR 0x8A, CHR 0xE5, CHR 0x86, CHR 0x85,
              CHR 0xE5, CHR 0xAE, CHR 0xB9, CHR 0xE7, CHR 0xBF, CHR 0xBB, CHR 0xE8, CHR 0xAF, CHR 0x91,
              CHR 0xE6, CHR 0x88, CHR 0x90, CHR 0xE4, CHR 0xB8, CHR 0xAD, CHR 0xE6, CHR 0x96, CHR 0x87,
              CHR 0xE5, CHR 0xB9, CHR 0xB6, CHR 0xE7, CHR 0xAE, CHR 0x80, CHR 0xE8, CHR 0xA6, CHR 0x81,
              CHR 0xE6, CHR 0xA6, CHR 0x82, CHR 0xE6, CHR 0x8B, CHR 0xAC,
              CHR 0x22, CHR 0x0A]))])
   \<and> parse_question [''demo'', ''config.json'', ''a.wav'', ''o.wav'', ''what'', ''is'', ''this'']
       = ''what is this''
   \<and> Response ''<audio>a.wav</audio>what is this''
       \<in> set (snd (main example_world ''demo''
                  [''config.json'', ''a.wav'', ''o.wav'', ''what'', ''is'', ''this'']))"
proof -
  let ?args = "[''config.json'', ''a.wav'', ''o.wav'', ''what'', ''is'', ''this'']"
  have h: "4 \<le> length ?args \<and> createLLM example_world (?args ! 0) = Some example_config
             \<and> load example_world"
    by (simp add: example_world_def)
  have j: "space_joined (drop 3 ?args) = ''what is this''" by simp
  have b: "buildAudioPrompt (?args ! 1) ''what is this'' = ''<audio>a.wav</audio>what is this''"
    by (simp add: buildAudioPrompt_def put_def str_def)
  from main_usage_and_question [of "[''config.json'']" example_world "''demo''"]
  have 1: "main example_world ''demo'' [''config.json''] =
     (Return 0,
       [Cout (Str ''Usage:\<newline>''),
        Cout (Str ''  ''), Cout (Str ''demo''),
        Cout (Str '' <config.json> <audio.wav> [output.wav] [question]\<newline>\<newline>''),
        Cout (Str [CHR 0xE7, CHR 0xA4, CHR 0xBA, CHR 0xE4, CHR 0xBE, CHR 0x8B, CHR 0xEF, CHR 0xBC,
                   CHR 0x9A, CHR 0x0A]),
        Cout (Str ''  ''), Cout (Str ''demo''),
        Cout (Str ('' D:/Project/models/qwen2.5/config.json D:/audio/input.wav output.wav ''
           @ [CHR 0x22,
              CHR 0xE8, CHR 0xAF, CHR 0xB7, CHR 0xE6, CHR 0x8A, CHR 0x8A, CHR 0xE5, CHR 0x86, CHR 0x85,
              CHR 0xE5, CHR 0xAE, CHR 0xB9, CHR 0xE7, CHR 0xBF, CHR 0xBB, CHR 0xE8, CHR 0xAF, CHR 0x91,
              CHR 0xE6, CHR 0x88, CHR 0x90, CHR 0xE4, CHR 0xB8, CHR 0xAD, CHR 0xE6, CHR 0x96, CHR 0x87,
              CHR 0xE5, CHR 0xB9, CHR 0xB6, CHR 0xE7, CHR 0xAE, CHR 0x80, CHR 0xE8, CHR 0xA6, CHR 0x81,
              CHR 0xE6, CHR 0xA6, CHR 0x82, CHR 0xE6, CHR 0x8B, CHR 0xAC,
              CHR 0x22, CHR 0x0A]))])" by simp
  from main_usage_and_question [of ?args example_world "''demo''" example_config] h
  have "parse_question (''demo'' # ?args) = space_joined (drop 3 ?args)"
    and "Response (buildAudioPrompt (?args ! 1) (space_joined (drop 3 ?args)))
          \<in> set (snd (main example_world ''demo'' ?args))"
    by blast+
  with 1 j b show ?thesis by simp
qed

end
